theory Spec2Isabelle
  imports Complex_Main
begin

section \<open>Orbital web client: data model\<close>

text \<open>
  The development embeds the parts of the Orbital front end that drive a chat turn: the
  wire types of \<^verbatim>\<open>app/_lib/api.ts\<close>, the chat transport client
  \<^verbatim>\<open>sendMessage\<close> of the same file, the workspace store (actions
  \<^verbatim>\<open>loadSession\<close> and \<^verbatim>\<open>sendMessage\<close>, helpers
  \<^verbatim>\<open>findLastQueryResult\<close> and \<^verbatim>\<open>buildVizTabs\<close>) and
  \<^verbatim>\<open>groupMessages\<close> of the chat panel.

  TypeScript interfaces become records. HOL record fields share one name space, so every
  field carries a short prefix of its interface (\<open>msg_id\<close> for \<^verbatim>\<open>Message.id\<close>).
  An optional field \<^verbatim>\<open>f?: T\<close> is a \<open>T option\<close>, \<open>None\<close> standing for
  \<^verbatim>\<open>undefined\<close>. Values of type \<^verbatim>\<open>unknown\<close> are parsed JSON. The typed
  number fields, which the modelled code only copies, and the indices and clock readings it
  prints are integers.
\<close>

text \<open>
  A number of a parsed JSON value is a double: a finite value, which is a rational (negative
  zero counting as zero), or an infinity, which \<^verbatim>\<open>JSON.parse\<close> yields for a literal
  out of range. \<^verbatim>\<open>NaN\<close> has no JSON literal.
\<close>

datatype number = Finite rat | PosInfinity | NegInfinity

text \<open>
  A parsed JSON value. An object lists its members in the order of the text; when a key
  occurs twice, \<^verbatim>\<open>JSON.parse\<close> keeps the last occurrence.
\<close>

datatype json =
    JNull
  | JBool bool
  | JNum number
  | JStr string
  | JArr "json list"
  | JObj "(string \<times> json) list"

datatype ChartType = Bar | Line | Scatter | Pie | Area

record ChartSpec =
  chart_type :: ChartType
  chart_title :: string
  chart_data :: "json list"
  chart_x :: string
  chart_y :: string
  chart_color :: "string option"
  chart_x_label :: "string option"
  chart_y_label :: "string option"

record GraphNode =
  node_id :: string
  node_label :: string

record GraphEdge =
  edge_source :: string
  edge_target :: string
  edge_weight :: "int option"

text \<open>A \<^verbatim>\<open>GraphSpec\<close> is the visualization whose \<^verbatim>\<open>type\<close> is \<^verbatim>\<open>"network"\<close>.\<close>

record GraphSpec =
  graph_title :: string
  graph_nodes :: "GraphNode list"
  graph_edges :: "GraphEdge list"
  graph_layout :: string

text \<open>
  The union \<^verbatim>\<open>ChartSpec | GraphSpec\<close> is discriminated by its \<^verbatim>\<open>type\<close> field:
  \<^verbatim>\<open>v.type === "network"\<close> holds exactly of the \<open>VGraph\<close> values.
\<close>

datatype Visualization = VChart ChartSpec | VGraph GraphSpec

record ToolCall =
  tc_tool :: string
  tc_input :: json
  tc_durationMs :: "int option"
  tc_error :: "string option"
  tc_output :: "string option"

record QueryResult =
  qr_data :: "json list"
  qr_columns :: "string list"
  qr_row_count :: int

record TokenUsage =
  tu_inputTokens :: int
  tu_contextLimit :: int

record ChatResponse =
  resp_messageId :: string
  resp_response :: string
  resp_visualizations :: "Visualization list"
  resp_model :: "string option"
  resp_toolCalls :: "ToolCall list"
  resp_queryResults :: "QueryResult list option"
  resp_tokenUsage :: "TokenUsage option"

datatype Role = User | Assistant | System

record SystemEvent =
  ev_type :: string
  ev_summary :: string
  ev_metadata :: "json option"

record Message =
  msg_id :: string
  msg_role :: Role
  msg_content :: string
  msg_timestamp :: string
  msg_charts :: "ChartSpec list option"
  msg_graphs :: "GraphSpec list option"
  msg_toolCalls :: "ToolCall list option"
  msg_queryResults :: "QueryResult list option"
  msg_systemEvent :: "SystemEvent option"
  msg_isError :: "bool option"
  msg_tokenUsage :: "TokenUsage option"

record Insight =
  ins_id :: string
  ins_title :: string
  ins_summary :: string
  ins_createdAt :: string
  ins_messageId :: "string option"
  ins_visualization :: "Visualization option"
  ins_savedAsArtifact :: "string option"

record Session =
  sess_id :: string
  sess_name :: string
  sess_dataSource :: string
  sess_createdBy :: string
  sess_createdAt :: string
  sess_updatedAt :: string
  sess_messageCount :: int
  sess_userMessageCount :: int
  sess_artifactCount :: int
  sess_datasetCount :: int
  sess_messages :: "Message list"
  sess_insights :: "Insight list"
  sess_datasets :: "string list option"
  sess_memory :: "json option"

section \<open>Workspace store\<close>

datatype WorkspaceTab = VizTab | DataTab

datatype DataView = PreviewView | QueryView

datatype VizType = ChartViz | GraphViz

record ChartTab =
  tab_id :: string
  tab_title :: string
  tab_vizType :: VizType
  tab_spec :: Visualization

text \<open>The anonymous type \<^verbatim>\<open>{ data: unknown[]; columns: string[] }\<close> of the store.\<close>

record QuerySnapshot =
  snap_data :: "json list"
  snap_columns :: "string list"

text \<open>
  The fields of \<^verbatim>\<open>WorkspaceState\<close> that \<^verbatim>\<open>loadSession\<close> and
  \<^verbatim>\<open>sendMessage\<close> read or write. The schema diagram, dataset, preview and
  interaction fields are written by other actions only.
\<close>

record WorkspaceState =
  ws_session :: "Session option"
  ws_activeTab :: WorkspaceTab
  ws_isLoading :: bool
  ws_isSending :: bool
  ws_sendStartedAt :: "int option"
  ws_error :: "string option"
  ws_currentVisualization :: "Visualization option"
  ws_currentQueryResult :: "QuerySnapshot option"
  ws_visualizationTabs :: "ChartTab list"
  ws_activeVizTabIndex :: "nat option"
  ws_activeDataView :: DataView

text \<open>
  A value caught by \<^verbatim>\<open>catch (error)\<close>: an instance of \<^verbatim>\<open>Error\<close> with its
  message, or any other thrown value.
\<close>

datatype thrown = ErrorObj string | NonError

text \<open>\<^verbatim>\<open>error instanceof Error ? error.message : fallback\<close>, as every handler of the store has it.\<close>

definition caughtMessage :: "thrown \<Rightarrow> string \<Rightarrow> string" where
  "caughtMessage err fallback = (case err of ErrorObj m \<Rightarrow> m | NonError \<Rightarrow> fallback)"

subsection \<open>Numbers in template literals\<close>

text \<open>
  \<^verbatim>\<open>`${i}`\<close> prints an integer in decimal. \<open>show_nat\<close> does so for the array
  indices, \<open>show_int\<close> for the readings of \<^verbatim>\<open>Date.now()\<close>. Both kinds of
  number stay far below \<open>10\<^sup>2\<^sup>1\<close>, the size from which JavaScript prints an exponent: an
  index is below \<open>2\<^sup>3\<^sup>2\<close>, and a time value is at most 8.64 times \<open>10\<^sup>1\<^sup>5\<close> in size.
\<close>

definition digit_char :: "nat \<Rightarrow> char" where
  "digit_char d = ''0123456789'' ! d"

function show_nat :: "nat \<Rightarrow> string" where
  "show_nat n = (if n < 10 then [digit_char n] else show_nat (n div 10) @ [digit_char (n mod 10)])"
  by pat_completeness auto
termination
  by (relation "measure (\<lambda>n. n)") auto

declare show_nat.simps [simp del]

definition show_int :: "int \<Rightarrow> string" where
  "show_int i = (if i < 0 then CHR ''-'' # show_nat (nat (- i)) else show_nat (nat i))"

subsection \<open>Helpers of the store\<close>

text \<open>
  \<^verbatim>\<open>buildVizTabs\<close>: a loop over the messages that pushes onto \<open>tabs\<close>. A message
  that is not an assistant message is skipped (\<^verbatim>\<open>continue\<close>);
  \<^verbatim>\<open>msg.charts?.forEach\<close> does nothing when the field is undefined, and otherwise
  pushes one tab per chart, with its index. \<^verbatim>\<open>chart.title || `Chart ${i + 1}`\<close>
  takes the default exactly when the title is the empty string.
\<close>

definition pushChartTab :: "string \<Rightarrow> nat \<times> ChartSpec \<Rightarrow> ChartTab list \<Rightarrow> ChartTab list" where
  "pushChartTab mid ic tabs =
     tabs @ [\<lparr> tab_id = mid @ ''-chart-'' @ show_nat (fst ic),
               tab_title = (if chart_title (snd ic) \<noteq> [] then chart_title (snd ic)
                            else ''Chart '' @ show_nat (fst ic + 1)),
               tab_vizType = ChartViz,
               tab_spec = VChart (snd ic) \<rparr>]"

definition pushGraphTab :: "string \<Rightarrow> nat \<times> GraphSpec \<Rightarrow> ChartTab list \<Rightarrow> ChartTab list" where
  "pushGraphTab mid ig tabs =
     tabs @ [\<lparr> tab_id = mid @ ''-graph-'' @ show_nat (fst ig),
               tab_title = (if graph_title (snd ig) \<noteq> [] then graph_title (snd ig)
                            else ''Graph '' @ show_nat (fst ig + 1)),
               tab_vizType = GraphViz,
               tab_spec = VGraph (snd ig) \<rparr>]"

fun buildVizTabs_loop :: "ChartTab list \<Rightarrow> Message list \<Rightarrow> ChartTab list" where
  "buildVizTabs_loop tabs [] = tabs"
| "buildVizTabs_loop tabs (msg # rest) =
     (if msg_role msg \<noteq> Assistant then buildVizTabs_loop tabs rest
      else
        let tabs1 = (case msg_charts msg of
                       None \<Rightarrow> tabs
                     | Some charts \<Rightarrow> fold (pushChartTab (msg_id msg)) (enumerate 0 charts) tabs);
            tabs2 = (case msg_graphs msg of
                       None \<Rightarrow> tabs1
                     | Some graphs \<Rightarrow> fold (pushGraphTab (msg_id msg)) (enumerate 0 graphs) tabs1)
        in buildVizTabs_loop tabs2 rest)"

definition buildVizTabs :: "Message list \<Rightarrow> ChartTab list" where
  "buildVizTabs messages = buildVizTabs_loop [] messages"

text \<open>
  \<^verbatim>\<open>findLastQueryResult\<close>: the loop runs \<open>i\<close> from \<open>length messages - 1\<close> down to
  \<open>0\<close>. The counter of \<open>findLastQueryResult_from\<close> is \<open>i + 1\<close>, so that the loop ends at
  \<open>0\<close>; every index it reads is in range.
\<close>

fun findLastQueryResult_from :: "Message list \<Rightarrow> nat \<Rightarrow> QuerySnapshot option" where
  "findLastQueryResult_from messages 0 = None"
| "findLastQueryResult_from messages (Suc i) =
     (let msg = messages ! i in
      case msg_queryResults msg of
        None \<Rightarrow> findLastQueryResult_from messages i
      | Some qrs \<Rightarrow>
          if msg_role msg = Assistant \<and> length qrs > 0
          then (let lastResult = qrs ! (length qrs - 1)
                in Some \<lparr> snap_data = qr_data lastResult, snap_columns = qr_columns lastResult \<rparr>)
          else findLastQueryResult_from messages i)"

definition findLastQueryResult :: "Message list \<Rightarrow> QuerySnapshot option" where
  "findLastQueryResult messages = findLastQueryResult_from messages (length messages)"

subsection \<open>loadSession\<close>

text \<open>
  The outcome of \<^verbatim>\<open>await api.getSession(id)\<close> is an argument: \<open>Inr\<close> the session,
  \<open>Inl\<close> the value thrown. The first \<^verbatim>\<open>set\<close> raises \<open>isLoading\<close> and clears the
  error; the second one stores the session or the error message.
\<close>

definition loadSession :: "WorkspaceState \<Rightarrow> thrown + Session \<Rightarrow> WorkspaceState" where
  "loadSession st0 fetched =
     (let st = st0\<lparr> ws_isLoading := True, ws_error := None \<rparr> in
      case fetched of
        Inr session \<Rightarrow>
          (let tabs = buildVizTabs (sess_messages session);
               lastQueryResult = findLastQueryResult (sess_messages session)
           in st\<lparr> ws_session := Some session,
                   ws_isLoading := False,
                   ws_visualizationTabs := tabs,
                   ws_activeVizTabIndex := (if length tabs > 0 then Some (length tabs - 1) else None),
                   ws_currentVisualization :=
                     (if length tabs > 0 then Some (tab_spec (tabs ! (length tabs - 1))) else None),
                   ws_currentQueryResult := lastQueryResult \<rparr>)
      | Inl err \<Rightarrow>
          st\<lparr> ws_isLoading := False,
                ws_error := Some (caughtMessage err ''Failed to load session'') \<rparr>)"

subsection \<open>sendMessage\<close>

text \<open>
  The readings of the clock that one call of \<^verbatim>\<open>sendMessage\<close> takes, in the order
  of the source: \<^verbatim>\<open>Date.now()\<close> for \<open>sendStartedAt\<close> and for the temporary id,
  \<^verbatim>\<open>new Date().toISOString()\<close> for the temporary message; after the response, one
  timestamp each for the user and the assistant message; in the handler, \<^verbatim>\<open>Date.now()\<close>
  for the id of the error message and its timestamp.
\<close>

record SendClock =
  clk_started :: int
  clk_temp :: int
  clk_temp_iso :: string
  clk_user_iso :: string
  clk_assistant_iso :: string
  clk_error :: int
  clk_error_iso :: string

definition tempUserMessage :: "string \<Rightarrow> SendClock \<Rightarrow> Message" where
  "tempUserMessage content clk =
     \<lparr> msg_id = ''temp-'' @ show_int (clk_temp clk),
       msg_role = User,
       msg_content = content,
       msg_timestamp = clk_temp_iso clk,
       msg_charts = None, msg_graphs = None, msg_toolCalls = None, msg_queryResults = None,
       msg_systemEvent = None, msg_isError = None, msg_tokenUsage = None \<rparr>"

text \<open>The two filters over \<^verbatim>\<open>response.visualizations\<close>.\<close>

definition charts_of :: "Visualization list \<Rightarrow> ChartSpec list" where
  "charts_of vs = List.map_filter (\<lambda>v. case v of VChart c \<Rightarrow> Some c | VGraph g \<Rightarrow> None) vs"

definition graphs_of :: "Visualization list \<Rightarrow> GraphSpec list" where
  "graphs_of vs = List.map_filter (\<lambda>v. case v of VChart c \<Rightarrow> None | VGraph g \<Rightarrow> Some g) vs"

definition userMessage :: "string \<Rightarrow> SendClock \<Rightarrow> ChatResponse \<Rightarrow> Message" where
  "userMessage content clk response =
     \<lparr> msg_id = ''user-'' @ resp_messageId response,
       msg_role = User,
       msg_content = content,
       msg_timestamp = clk_user_iso clk,
       msg_charts = None, msg_graphs = None, msg_toolCalls = None, msg_queryResults = None,
       msg_systemEvent = None, msg_isError = None, msg_tokenUsage = None \<rparr>"

definition assistantMessage :: "SendClock \<Rightarrow> ChatResponse \<Rightarrow> Message" where
  "assistantMessage clk response =
     (let charts = charts_of (resp_visualizations response);
          graphs = graphs_of (resp_visualizations response)
      in \<lparr> msg_id = resp_messageId response,
            msg_role = Assistant,
            msg_content = resp_response response,
            msg_timestamp = clk_assistant_iso clk,
            msg_charts = (if length charts > 0 then Some charts else None),
            msg_graphs = (if length graphs > 0 then Some graphs else None),
            msg_toolCalls =
              (if length (resp_toolCalls response) > 0 then Some (resp_toolCalls response) else None),
            msg_queryResults =
              (case resp_queryResults response of
                 None \<Rightarrow> None
               | Some qrs \<Rightarrow> if length qrs > 0 then Some qrs else None),
            msg_systemEvent = None,
            msg_isError = None,
            msg_tokenUsage = resp_tokenUsage response \<rparr>)"

definition newChartTabs :: "ChatResponse \<Rightarrow> ChartTab list" where
  "newChartTabs response =
     map (\<lambda>(i, chart).
            \<lparr> tab_id = resp_messageId response @ ''-chart-'' @ show_nat i,
              tab_title = (if chart_title chart \<noteq> [] then chart_title chart
                           else ''Chart '' @ show_nat (i + 1)),
              tab_vizType = ChartViz,
              tab_spec = VChart chart \<rparr>)
         (enumerate 0 (charts_of (resp_visualizations response)))"

definition newGraphTabs :: "ChatResponse \<Rightarrow> ChartTab list" where
  "newGraphTabs response =
     map (\<lambda>(i, graph).
            \<lparr> tab_id = resp_messageId response @ ''-graph-'' @ show_nat i,
              tab_title = (if graph_title graph \<noteq> [] then graph_title graph
                           else ''Graph '' @ show_nat (i + 1)),
              tab_vizType = GraphViz,
              tab_spec = VGraph graph \<rparr>)
         (enumerate 0 (graphs_of (resp_visualizations response)))"

definition errorChatMessage :: "SendClock \<Rightarrow> string \<Rightarrow> Message" where
  "errorChatMessage clk errorMessage =
     \<lparr> msg_id = ''error-'' @ show_int (clk_error clk),
       msg_role = Assistant,
       msg_content = errorMessage,
       msg_timestamp = clk_error_iso clk,
       msg_charts = None, msg_graphs = None, msg_toolCalls = None, msg_queryResults = None,
       msg_systemEvent = None,
       msg_isError = Some True,
       msg_tokenUsage = None \<rparr>"

text \<open>
  The part of \<^verbatim>\<open>sendMessage\<close> before \<^verbatim>\<open>await\<close>, for the session the
  call has read from the store: the flags are set and the temporary message is shown.
\<close>

definition sendMessage_begin :: "Session \<Rightarrow> string \<Rightarrow> SendClock \<Rightarrow> WorkspaceState \<Rightarrow> WorkspaceState" where
  "sendMessage_begin session content clk st =
     st\<lparr> ws_isSending := True,
          ws_sendStartedAt := Some (clk_started clk),
          ws_error := None,
          ws_session :=
            Some (session\<lparr> sess_messages := sess_messages session @ [tempUserMessage content clk] \<rparr>) \<rparr>"

text \<open>
  The part after \<^verbatim>\<open>await\<close>. \<open>session\<close> is the constant the call bound before
  the optimistic update; \<open>cur\<close> is the store as \<^verbatim>\<open>get()\<close> reads it when the
  call resumes, and the state that \<^verbatim>\<open>set\<close> merges into. \<open>Inr\<close> is the response
  of \<^verbatim>\<open>api.sendMessage\<close>, \<open>Inl\<close> the value it threw.
\<close>

definition sendMessage_settle ::
  "Session \<Rightarrow> string \<Rightarrow> SendClock \<Rightarrow> thrown + ChatResponse \<Rightarrow> WorkspaceState \<Rightarrow> WorkspaceState" where
  "sendMessage_settle session content clk outcome cur =
     (case outcome of
        Inr response \<Rightarrow>
          (let queryResults = resp_queryResults response;
               updatedTabs = ws_visualizationTabs cur @ newChartTabs response @ newGraphTabs response;
               newActiveIndex = (if length updatedTabs > 0 then Some (length updatedTabs - 1) else None);
               newQueryResult =
                 (case queryResults of
                    None \<Rightarrow> ws_currentQueryResult cur
                  | Some qrs \<Rightarrow>
                      if length qrs > 0
                      then Some \<lparr> snap_data = qr_data (qrs ! (length qrs - 1)),
                                  snap_columns = qr_columns (qrs ! (length qrs - 1)) \<rparr>
                      else ws_currentQueryResult cur)
           in cur\<lparr> ws_session :=
                      Some (session\<lparr> sess_messages :=
                              filter (\<lambda>m. msg_id m \<noteq> msg_id (tempUserMessage content clk))
                                (sess_messages session)
                              @ [userMessage content clk response, assistantMessage clk response] \<rparr>),
                    ws_isSending := False,
                    ws_sendStartedAt := None,
                    ws_visualizationTabs := updatedTabs,
                    ws_activeVizTabIndex := newActiveIndex,
                    ws_currentVisualization :=
                      (case newActiveIndex of
                         Some i \<Rightarrow> Some (tab_spec (updatedTabs ! i))
                       | None \<Rightarrow> ws_currentVisualization cur),
                    ws_currentQueryResult := newQueryResult,
                    ws_activeDataView :=
                      (case newQueryResult of Some r \<Rightarrow> QueryView | None \<Rightarrow> ws_activeDataView cur) \<rparr>)
      | Inl err \<Rightarrow>
          (let errorMessage = caughtMessage err ''Failed to send message''
           in cur\<lparr> ws_isSending := False,
                    ws_sendStartedAt := None,
                    ws_error := Some errorMessage,
                    ws_session :=
                      Some (session\<lparr> sess_messages :=
                              sess_messages session
                              @ [tempUserMessage content clk, errorChatMessage clk errorMessage] \<rparr>) \<rparr>))"

text \<open>
  One whole call, with no other action of the store running between its two parts. Without a
  session the call returns at once and the store is unchanged.
\<close>

definition sendMessage :: "WorkspaceState \<Rightarrow> string \<Rightarrow> SendClock \<Rightarrow> thrown + ChatResponse \<Rightarrow> WorkspaceState" where
  "sendMessage st content clk outcome =
     (case ws_session st of
        None \<Rightarrow> st
      | Some session \<Rightarrow>
          sendMessage_settle session content clk outcome (sendMessage_begin session content clk st))"

text \<open>
  What the chat panel and the log panel read from the store: the messages of the session,
  and \<^verbatim>\<open>assistantMessage.toolCalls ?? []\<close>.
\<close>

definition displayedMessages :: "WorkspaceState \<Rightarrow> Message list" where
  "displayedMessages st = (case ws_session st of None \<Rightarrow> [] | Some session \<Rightarrow> sess_messages session)"

definition toolCallRecords :: "Message \<Rightarrow> ToolCall list" where
  "toolCallRecords msg = (case msg_toolCalls msg of None \<Rightarrow> [] | Some tcs \<Rightarrow> tcs)"

section \<open>Chat transport client\<close>

text \<open>
  \<^verbatim>\<open>sendMessage\<close> of \<^verbatim>\<open>api.ts\<close>. The outcome of \<^verbatim>\<open>await fetch(...)\<close>
  is an argument: \<open>Inl\<close> when the request itself fails, \<open>Inr\<close> the HTTP response. Of a
  response the function reads \<^verbatim>\<open>ok\<close>, which the fetch standard sets exactly for
  the statuses 200 to 299, and \<^verbatim>\<open>json()\<close>, which yields the parsed body or rejects.
\<close>

record Response =
  rsp_status :: int
  rsp_json :: "thrown + json"

definition rsp_ok :: "Response \<Rightarrow> bool" where
  "rsp_ok response = (200 \<le> rsp_status response \<and> rsp_status response \<le> 299)"

text \<open>
  \<^verbatim>\<open>error.error\<close> on a parsed body: reading a property of \<^verbatim>\<open>null\<close> throws a
  \<^verbatim>\<open>TypeError\<close> (the message is the one of V8, the engine of Node and Chrome); an
  object yields its member of that name, the last one when the name occurs twice, or
  \<^verbatim>\<open>undefined\<close> (\<open>None\<close>); booleans, numbers, strings and arrays have no property
  of that name.
\<close>

definition nullPropertyMessage :: string where
  "nullPropertyMessage = ''Cannot read properties of null (reading 'error')''"

definition errorField :: "json \<Rightarrow> thrown + json option" where
  "errorField body =
     (case body of
        JNull \<Rightarrow> Inl (ErrorObj nullPropertyMessage)
      | JObj props \<Rightarrow> Inr (map_of (rev props) ''error'')
      | _ \<Rightarrow> Inr None)"

text \<open>The values that \<^verbatim>\<open>||\<close> passes over: \<^verbatim>\<open>undefined\<close>, \<^verbatim>\<open>null\<close>,
  \<^verbatim>\<open>false\<close>, zero and the empty string.\<close>

fun js_truthy :: "json option \<Rightarrow> bool" where
  "js_truthy None = False"
| "js_truthy (Some JNull) = False"
| "js_truthy (Some (JBool b)) = b"
| "js_truthy (Some (JNum (Finite q))) = (q \<noteq> 0)"
| "js_truthy (Some (JNum PosInfinity)) = True"
| "js_truthy (Some (JNum NegInfinity)) = True"
| "js_truthy (Some (JStr s)) = (s \<noteq> [])"
| "js_truthy (Some (JArr xs)) = True"
| "js_truthy (Some (JObj props)) = True"

text \<open>\<^verbatim>\<open>a || b\<close> for a value \<open>b\<close> that is defined.\<close>

definition js_or :: "json option \<Rightarrow> json \<Rightarrow> json" where
  "js_or a b = (case a of None \<Rightarrow> b | Some v \<Rightarrow> if js_truthy (Some v) then v else b)"

text \<open>
  What \<^verbatim>\<open>api.sendMessage\<close> throws: a value that \<^verbatim>\<open>fetch\<close>,
  \<^verbatim>\<open>response.json()\<close> or the property access threw and that passes through
  (\<open>Rethrown\<close>), or the error of \<^verbatim>\<open>throw new Error(x)\<close> (\<open>NewError x\<close>), whose
  message is \<^verbatim>\<open>String(x)\<close>: the string \<open>x\<close> itself when \<open>x\<close> is a string.
\<close>

datatype raised = Rethrown thrown | NewError json

definition api_sendMessage :: "thrown + Response \<Rightarrow> raised + json" where
  "api_sendMessage fetched =
     (case fetched of
        Inl err \<Rightarrow> Inl (Rethrown err)
      | Inr response \<Rightarrow>
          if \<not> rsp_ok response
          then (case rsp_json response of
                  Inl err \<Rightarrow> Inl (Rethrown err)
                | Inr error \<Rightarrow>
                    (case errorField error of
                       Inl err \<Rightarrow> Inl (Rethrown err)
                     | Inr field \<Rightarrow> Inl (NewError (js_or field (JStr ''Failed to send message'')))))
          else (case rsp_json response of
                  Inl err \<Rightarrow> Inl (Rethrown err)
                | Inr parsed \<Rightarrow> Inr parsed))"

section \<open>Chat panel: groupMessages\<close>

text \<open>
  The two kinds of group: \<^verbatim>\<open>{ type: "message", message }\<close> and
  \<^verbatim>\<open>{ type: "system", messages }\<close>.
\<close>

datatype MessageGroup = SingleMessage Message | SystemMessages "Message list"

text \<open>
  The inner loop: from index \<open>i\<close>, push system messages onto \<open>systemMsgs\<close> until the
  list ends or a message of another role stands at \<open>i\<close>. It returns the index reached and
  the messages collected.
\<close>

function collectSystem :: "Message list \<Rightarrow> nat \<Rightarrow> Message list \<Rightarrow> nat \<times> Message list" where
  "collectSystem messages i systemMsgs =
     (if i < length messages \<and> msg_role (messages ! i) = System
      then collectSystem messages (i + 1) (systemMsgs @ [messages ! i])
      else (i, systemMsgs))"
  by pat_completeness auto
termination
  by (relation "measure (\<lambda>(messages, i, systemMsgs). length messages - i)") auto

declare collectSystem.simps [simp del]

text \<open>The outer loop, with its counter \<open>i\<close> and the list \<open>groups\<close> it pushes onto.\<close>

function groupMessages_loop :: "Message list \<Rightarrow> nat \<Rightarrow> MessageGroup list \<Rightarrow> MessageGroup list" where
  "groupMessages_loop messages i groups =
     (if i < length messages
      then (if msg_role (messages ! i) = System
            then (case collectSystem messages i [] of
                    (j, systemMsgs) \<Rightarrow>
                      groupMessages_loop messages j (groups @ [SystemMessages systemMsgs]))
            else groupMessages_loop messages (i + 1) (groups @ [SingleMessage (messages ! i)]))
      else groups)"
  by pat_completeness auto
termination
proof (relation "measure (\<lambda>(messages, i, groups). length messages - i)")
  show "wf (measure (\<lambda>(messages, i, groups). length messages - i))"
    by simp
next
  fix messages :: "Message list" and i :: nat and groups :: "MessageGroup list"
    and j :: nat and systemMsgs :: "Message list"
  assume inside: "i < length messages" and sys: "msg_role (messages ! i) = System"
    and jx: "(j, systemMsgs) = collectSystem messages i []"
  have advance: "k \<le> fst (collectSystem messages k acc)" for k acc
  proof (induction messages k acc rule: collectSystem.induct)
    case (1 messages k acc)
    show ?case
    proof (cases "k < length messages \<and> msg_role (messages ! k) = System")
      case True
      with "1.IH" have "k + 1 \<le> fst (collectSystem messages (k + 1) (acc @ [messages ! k]))"
        by simp
      with True show ?thesis
        by (subst collectSystem.simps) simp
    next
      case False
      then show ?thesis
        by (subst collectSystem.simps) auto
    qed
  qed
  have "collectSystem messages i [] = collectSystem messages (i + 1) ([] @ [messages ! i])"
    using inside sys by (subst collectSystem.simps) simp
  with advance [of "i + 1" "[] @ [messages ! i]"] jx have "i < j"
    by (metis Suc_eq_plus1 Suc_le_lessD fst_conv)
  with inside show "((messages, j, groups @ [SystemMessages systemMsgs]), (messages, i, groups))
      \<in> measure (\<lambda>(messages, i, groups). length messages - i)"
    by simp
next
  fix messages :: "Message list" and i :: nat and groups :: "MessageGroup list"
  assume "i < length messages" and "msg_role (messages ! i) \<noteq> System"
  then show "((messages, i + 1, groups @ [SingleMessage (messages ! i)]), (messages, i, groups))
      \<in> measure (\<lambda>(messages, i, groups). length messages - i)"
    by simp
qed

declare groupMessages_loop.simps [simp del]

definition groupMessages :: "Message list \<Rightarrow> MessageGroup list" where
  "groupMessages messages = groupMessages_loop messages 0 []"

text \<open>The messages a group renders, and whether it is a system group.\<close>

fun groupContents :: "MessageGroup \<Rightarrow> Message list" where
  "groupContents (SingleMessage m) = [m]"
| "groupContents (SystemMessages ms) = ms"

fun isSystemGroup :: "MessageGroup \<Rightarrow> bool" where
  "isSystemGroup (SingleMessage m) = False"
| "isSystemGroup (SystemMessages ms) = True"

text \<open>
  The same grouping as a recursion over the list: a system message opens a group that takes
  the system messages after it, any other message is a group of its own. The proofs relate
  the loop to it.
\<close>

function groupsOf :: "Message list \<Rightarrow> MessageGroup list" where
  "groupsOf [] = []"
| "groupsOf (m # ms) =
     (if msg_role m = System
      then SystemMessages (m # takeWhile (\<lambda>x. msg_role x = System) ms)
             # groupsOf (dropWhile (\<lambda>x. msg_role x = System) ms)
      else SingleMessage m # groupsOf ms)"
  by pat_completeness auto
termination
  by (relation "measure length") (auto simp: length_dropWhile_le less_Suc_eq_le)

text \<open>No two neighbours of a list of groups are both system groups.\<close>

fun noAdjacentSystem :: "MessageGroup list \<Rightarrow> bool" where
  "noAdjacentSystem [] = True"
| "noAdjacentSystem [g] = True"
| "noAdjacentSystem (g # h # rest) =
     (\<not> (isSystemGroup g \<and> isSystemGroup h) \<and> noAdjacentSystem (h # rest))"

text \<open>
  A group is well formed when a single message is not a system message and a system group
  is not empty and holds system messages only.
\<close>

fun wellFormedGroup :: "MessageGroup \<Rightarrow> bool" where
  "wellFormedGroup (SingleMessage m) = (msg_role m \<noteq> System)"
| "wellFormedGroup (SystemMessages ms) = (ms \<noteq> [] \<and> list_all (\<lambda>m. msg_role m = System) ms)"

section \<open>The last query result, as the specification words it\<close>

text \<open>
  The most recent assistant message that carries a non-empty \<^verbatim>\<open>queryResults\<close>, and
  of it the data and columns of the last result.
\<close>

definition carriesQueryResults :: "Message \<Rightarrow> bool" where
  "carriesQueryResults m =
     (msg_role m = Assistant \<and> (case msg_queryResults m of None \<Rightarrow> False | Some qrs \<Rightarrow> qrs \<noteq> []))"

definition lastQueryResult_spec :: "Message list \<Rightarrow> QuerySnapshot option" where
  "lastQueryResult_spec messages =
     (case filter carriesQueryResults messages of
        [] \<Rightarrow> None
      | c # cs \<Rightarrow>
          (case msg_queryResults (last (c # cs)) of
             None \<Rightarrow> None
           | Some qrs \<Rightarrow> Some \<lparr> snap_data = qr_data (last qrs), snap_columns = qr_columns (last qrs) \<rparr>))"

section \<open>Tool executors\<close>

text \<open>
  The executors of the agent's tools belong to the API backend of the repository, of which
  only the system prompt \<^verbatim>\<open>prompts/system.md\<close> is at hand. The two executors below
  are therefore written from the specification.
\<close>

text \<open>
  Modelled from the spec: the executor of \<^verbatim>\<open>create_graph\<close> is missing. The
  specification says that it "enforces \<open>\<le>\<close>200 nodes; rejects (does not silently truncate)
  oversized requests": a request with more than 200 nodes is an executor error, any other
  request yields the graph artifact with all the nodes requested.
\<close>

definition create_graph :: "GraphSpec \<Rightarrow> string + GraphSpec" where
  "create_graph requested =
     (if length (graph_nodes requested) > 200
      then Inl ''create_graph: more than 200 nodes requested''
      else Inr requested)"

text \<open>
  Modelled from the spec: the executor of \<^verbatim>\<open>create_chart\<close> is missing. The
  specification says that it "caps category cardinality (default top 10, max 20) with
  other bucketing" and that it "must report in the result whether truncation occurred".
  The executor receives one row per distinct category, the top category first, and the
  optional \<^verbatim>\<open>top_n\<close>; it keeps the first \<open>n\<close> rows, adds one row \<^verbatim>\<open>other\<close> that
  sums the rest, and flags the truncation.
\<close>

record ChartToolResult =
  ctr_rows :: "(string \<times> int) list"
  ctr_truncated :: bool

definition create_chart :: "nat option \<Rightarrow> (string \<times> int) list \<Rightarrow> ChartToolResult" where
  "create_chart top_n categories =
     (let n = min (case top_n of None \<Rightarrow> 10 | Some k \<Rightarrow> k) 20
      in if length categories \<le> n
         then \<lparr> ctr_rows = categories, ctr_truncated = False \<rparr>
         else \<lparr> ctr_rows = take n categories @ [(''other'', sum_list (map snd (drop n categories)))],
                ctr_truncated = True \<rparr>)"

section \<open>Sample values\<close>

text \<open>A small session and one answer of the server, on which the theorems below are run.\<close>

definition sample_chart :: ChartSpec where
  "sample_chart =
     \<lparr> chart_type = Bar, chart_title = ''Sales'', chart_data = [JObj [(''region'', JStr ''north''), (''total'', JNum (Finite 7))]],
       chart_x = ''region'', chart_y = ''total'',
       chart_color = None, chart_x_label = None, chart_y_label = None \<rparr>"

definition sample_graph :: GraphSpec where
  "sample_graph =
     \<lparr> graph_title = [],
       graph_nodes = [\<lparr> node_id = ''a'', node_label = ''A'' \<rparr>, \<lparr> node_id = ''b'', node_label = ''B'' \<rparr>],
       graph_edges = [\<lparr> edge_source = ''a'', edge_target = ''b'', edge_weight = None \<rparr>],
       graph_layout = ''force'' \<rparr>"

definition sample_query :: QueryResult where
  "sample_query = \<lparr> qr_data = [JObj [(''n'', JNum (Finite 3))]], qr_columns = [''n''], qr_row_count = 1 \<rparr>"

definition plainMessage :: "string \<Rightarrow> Role \<Rightarrow> string \<Rightarrow> Message" where
  "plainMessage mid role content =
     \<lparr> msg_id = mid, msg_role = role, msg_content = content, msg_timestamp = ''2026-01-01T10:00:00.000Z'',
       msg_charts = None, msg_graphs = None, msg_toolCalls = None, msg_queryResults = None,
       msg_systemEvent = None, msg_isError = None, msg_tokenUsage = None \<rparr>"

definition sample_history :: "Message list" where
  "sample_history =
     [plainMessage ''user-m1'' User ''show sales'',
      (plainMessage ''m1'' Assistant ''Here it is'')\<lparr> msg_charts := Some [sample_chart] \<rparr>]"

text \<open>A history whose assistant message bears the id that \<open>sample_clock\<close> gives the placeholder.\<close>

definition colliding_history :: "Message list" where
  "colliding_history = [(plainMessage ''temp-5'' Assistant ''Here it is'')\<lparr> msg_charts := Some [sample_chart] \<rparr>]"

text \<open>
  A history with two answers that carry query results, an older one with one result and the
  latest with two, followed by a failed turn.
\<close>

definition query_history :: "Message list" where
  "query_history =
     [plainMessage ''user-m1'' User ''count orders'',
      (plainMessage ''m1'' Assistant ''12 orders'')
        \<lparr> msg_queryResults := Some [\<lparr> qr_data = [JObj [(''n'', JNum (Finite 12))]], qr_columns = [''orders''], qr_row_count = 1 \<rparr>] \<rparr>,
      plainMessage ''user-m2'' User ''count regions'',
      (plainMessage ''m2'' Assistant ''3 regions'')
        \<lparr> msg_queryResults := Some [\<lparr> qr_data = [], qr_columns = [''region''], qr_row_count = 0 \<rparr>, sample_query] \<rparr>,
      (plainMessage ''m3'' Assistant ''No data'')\<lparr> msg_queryResults := Some [] \<rparr>,
      (plainMessage ''temp-4'' User ''and by month?'')\<lparr> msg_queryResults := Some [sample_query] \<rparr>,
      (plainMessage ''error-4'' Assistant ''Internal error'')\<lparr> msg_isError := Some True \<rparr>]"

text \<open>A history with background events between the turns.\<close>

definition event_history :: "Message list" where
  "event_history =
     [plainMessage ''user-m1'' User ''show sales'',
      plainMessage ''e1'' System ''dataset attached'',
      plainMessage ''e2'' System ''schema loaded'',
      plainMessage ''m1'' Assistant ''Here it is'',
      plainMessage ''e3'' System ''artifact saved'']"

text \<open>A graph request with \<open>n\<close> nodes, and the rows of a chart with 25 categories.\<close>

definition graphRequest :: "nat \<Rightarrow> GraphSpec" where
  "graphRequest n =
     \<lparr> graph_title = ''Reporting lines'',
       graph_nodes = map (\<lambda>k. \<lparr> node_id = show_nat k, node_label = ''Employee '' @ show_nat k \<rparr>) [0..<n],
       graph_edges = [],
       graph_layout = ''force'' \<rparr>"

definition sample_categories :: "(string \<times> int) list" where
  "sample_categories =
     [(''a'', 25), (''b'', 24), (''c'', 23), (''d'', 22), (''e'', 21),
      (''f'', 20), (''g'', 19), (''h'', 18), (''i'', 17), (''j'', 16),
      (''k'', 15), (''l'', 14), (''m'', 13), (''n'', 12), (''o'', 11),
      (''p'', 10), (''q'', 9), (''r'', 8), (''s'', 7), (''t'', 6),
      (''u'', 5), (''v'', 4), (''w'', 3), (''x'', 2), (''y'', 1)]"

text \<open>
  Responses of the chat endpoint: one that carries the body \<open>{ error: text }\<close>, and one
  whose body is not JSON, so that \<^verbatim>\<open>response.json()\<close> rejects.
\<close>

definition errorResponse :: "int \<Rightarrow> string \<Rightarrow> Response" where
  "errorResponse status text =
     \<lparr> rsp_status = status, rsp_json = Inr (JObj [(''error'', JStr text)]) \<rparr>"

definition unparseableResponse :: "int \<Rightarrow> Response" where
  "unparseableResponse status =
     \<lparr> rsp_status = status, rsp_json = Inl (ErrorObj ''Unexpected token < in JSON at position 0'') \<rparr>"

definition sessionWith :: "Message list \<Rightarrow> Session" where
  "sessionWith messages =
     \<lparr> sess_id = ''s1'', sess_name = ''Demo'', sess_dataSource = ''custom'', sess_createdBy = ''ann'',
       sess_createdAt = ''2026-01-01T09:00:00.000Z'', sess_updatedAt = ''2026-01-01T10:00:00.000Z'',
       sess_messageCount = 2, sess_userMessageCount = 1, sess_artifactCount = 0, sess_datasetCount = 0,
       sess_messages = messages, sess_insights = [], sess_datasets = None, sess_memory = None \<rparr>"

definition stateWith :: "Message list \<Rightarrow> WorkspaceState" where
  "stateWith messages =
     \<lparr> ws_session = Some (sessionWith messages), ws_activeTab = VizTab, ws_isLoading = False,
       ws_isSending = False, ws_sendStartedAt = None, ws_error = None,
       ws_currentVisualization = None, ws_currentQueryResult = None,
       ws_visualizationTabs = buildVizTabs messages,
       ws_activeVizTabIndex = None, ws_activeDataView = PreviewView \<rparr>"

definition sample_clock :: SendClock where
  "sample_clock =
     \<lparr> clk_started = 5, clk_temp = 5, clk_temp_iso = ''2026-01-01T10:01:00.000Z'',
       clk_user_iso = ''2026-01-01T10:01:02.000Z'', clk_assistant_iso = ''2026-01-01T10:01:02.000Z'',
       clk_error = 7, clk_error_iso = ''2026-01-01T10:01:02.000Z'' \<rparr>"

definition sample_toolCalls :: "ToolCall list" where
  "sample_toolCalls =
     [\<lparr> tc_tool = ''run_sql'', tc_input = JObj [(''sql'', JStr ''select'')], tc_durationMs = Some 12,
        tc_error = Some ''syntax error'', tc_output = None \<rparr>,
      \<lparr> tc_tool = ''get_schema'', tc_input = JObj [], tc_durationMs = Some 3,
        tc_error = None, tc_output = Some ''orders'' \<rparr>]"

definition responseWith :: "string \<Rightarrow> ChatResponse" where
  "responseWith mid =
     \<lparr> resp_messageId = mid, resp_response = ''Done'',
       resp_visualizations = [VGraph sample_graph, VChart sample_chart],
       resp_model = None, resp_toolCalls = sample_toolCalls,
       resp_queryResults = Some [sample_query], resp_tokenUsage = None \<rparr>"

text \<open>
  Two calls that overlap. The first sends \<open>top regions\<close>. While its request is in flight,
  the export menu sends the report request (\<^verbatim>\<open>handleExport\<close> calls
  \<^verbatim>\<open>sendMessage\<close> without looking at \<^verbatim>\<open>isSending\<close>): the second call reads
  the session that holds the first placeholder and adds its own.
\<close>

definition report_clock :: SendClock where
  "report_clock =
     \<lparr> clk_started = 6, clk_temp = 6, clk_temp_iso = ''2026-01-01T10:01:01.000Z'',
       clk_user_iso = ''2026-01-01T10:01:03.000Z'', clk_assistant_iso = ''2026-01-01T10:01:03.000Z'',
       clk_error = 8, clk_error_iso = ''2026-01-01T10:01:03.000Z'' \<rparr>"

definition reportText :: string where
  "reportText = ''Generate a report summarizing our analysis''"

definition firstInFlight :: WorkspaceState where
  "firstInFlight =
     sendMessage_begin (sessionWith sample_history) ''top regions'' sample_clock (stateWith sample_history)"

definition sessionInFlight :: Session where
  "sessionInFlight =
     (sessionWith sample_history)
       \<lparr> sess_messages := sample_history @ [tempUserMessage ''top regions'' sample_clock] \<rparr>"

definition bothInFlight :: WorkspaceState where
  "bothInFlight = sendMessage_begin sessionInFlight reportText report_clock firstInFlight"

text \<open>The store after the second call got its answer while the first is still in flight.\<close>

definition secondAnswered :: WorkspaceState where
  "secondAnswered =
     sendMessage_settle sessionInFlight reportText report_clock (Inr (responseWith ''m3'')) bothInFlight"

section \<open>Properties of the workspace store\<close>

subsection \<open>Building the tabs\<close>

lemma fold_pushChartTab:
  "fold (pushChartTab mid) ics tabs =
     tabs @ map (\<lambda>(i, chart).
            \<lparr> tab_id = mid @ ''-chart-'' @ show_nat i,
              tab_title = (if chart_title chart \<noteq> [] then chart_title chart
                           else ''Chart '' @ show_nat (i + 1)),
              tab_vizType = ChartViz,
              tab_spec = VChart chart \<rparr>) ics"
  by (induction ics arbitrary: tabs) (auto simp: pushChartTab_def)

lemma fold_pushGraphTab:
  "fold (pushGraphTab mid) igs tabs =
     tabs @ map (\<lambda>(i, graph).
            \<lparr> tab_id = mid @ ''-graph-'' @ show_nat i,
              tab_title = (if graph_title graph \<noteq> [] then graph_title graph
                           else ''Graph '' @ show_nat (i + 1)),
              tab_vizType = GraphViz,
              tab_spec = VGraph graph \<rparr>) igs"
  by (induction igs arbitrary: tabs) (auto simp: pushGraphTab_def)

lemma buildVizTabs_loop_acc:
  "buildVizTabs_loop tabs messages = tabs @ buildVizTabs_loop [] messages"
proof (induction messages arbitrary: tabs)
  case Nil
  show ?case by simp
next
  case (Cons msg rest)
  define R where "R = buildVizTabs_loop [] rest"
  have step: "buildVizTabs_loop t rest = t @ R" for t
    unfolding R_def by (rule Cons.IH)
  show ?case
    by (cases "msg_charts msg"; cases "msg_graphs msg")
       (simp_all add: Let_def fold_pushChartTab fold_pushGraphTab step)
qed

lemma buildVizTabs_Cons:
  "buildVizTabs (msg # rest) = buildVizTabs [msg] @ buildVizTabs rest"
proof -
  define R where "R = buildVizTabs_loop [] rest"
  have step: "buildVizTabs_loop t rest = t @ R" for t
    unfolding R_def by (rule buildVizTabs_loop_acc)
  have "buildVizTabs_loop [] (msg # rest) = buildVizTabs_loop [] [msg] @ R"
    by (cases "msg_charts msg"; cases "msg_graphs msg") (simp_all add: Let_def step)
  then show ?thesis
    by (simp add: buildVizTabs_def R_def)
qed

lemma buildVizTabs_append:
  "buildVizTabs (xs @ ys) = buildVizTabs xs @ buildVizTabs ys"
proof (induction xs)
  case Nil
  show ?case by (simp add: buildVizTabs_def)
next
  case (Cons msg rest)
  have "buildVizTabs ((msg # rest) @ ys) = buildVizTabs [msg] @ buildVizTabs (rest @ ys)"
    using buildVizTabs_Cons [of msg "rest @ ys"] by simp
  also have "\<dots> = buildVizTabs [msg] @ buildVizTabs rest @ buildVizTabs ys"
    by (simp add: Cons.IH)
  also have "\<dots> = buildVizTabs (msg # rest) @ buildVizTabs ys"
    using buildVizTabs_Cons [of msg rest] by simp
  finally show ?case .
qed

lemma buildVizTabs_not_assistant: "msg_role m \<noteq> Assistant \<Longrightarrow> buildVizTabs [m] = []"
  by (simp add: buildVizTabs_def)

lemma buildVizTabs_assistantMessage:
  "buildVizTabs [assistantMessage clk response] = newChartTabs response @ newGraphTabs response"
  by (simp add: buildVizTabs_def assistantMessage_def Let_def newChartTabs_def newGraphTabs_def
      fold_pushChartTab fold_pushGraphTab)

subsection \<open>The messages after a call\<close>

lemma sendMessage_no_session:
  "ws_session st = None \<Longrightarrow> sendMessage st content clk outcome = st"
  by (simp add: sendMessage_def)

lemma displayed_begin:
  "displayedMessages (sendMessage_begin session content clk st) =
     sess_messages session @ [tempUserMessage content clk]"
  by (simp add: displayedMessages_def sendMessage_begin_def)

lemma displayed_failed:
  "ws_session st = Some session \<Longrightarrow>
   displayedMessages (sendMessage st content clk (Inl err)) =
     sess_messages session @
       [tempUserMessage content clk, errorChatMessage clk (caughtMessage err ''Failed to send message'')]"
  by (simp add: displayedMessages_def sendMessage_def sendMessage_settle_def Let_def)

lemma displayed_ok:
  "ws_session st = Some session \<Longrightarrow>
   displayedMessages (sendMessage st content clk (Inr response)) =
     filter (\<lambda>m. msg_id m \<noteq> msg_id (tempUserMessage content clk)) (sess_messages session) @
       [userMessage content clk response, assistantMessage clk response]"
  by (simp add: displayedMessages_def sendMessage_def sendMessage_settle_def Let_def)

lemma displayed_settle_failed:
  "displayedMessages (sendMessage_settle session content clk (Inl err) cur) =
     sess_messages session @
       [tempUserMessage content clk, errorChatMessage clk (caughtMessage err ''Failed to send message'')]"
  by (simp add: displayedMessages_def sendMessage_settle_def Let_def)

lemma displayed_settle_ok:
  "displayedMessages (sendMessage_settle session content clk (Inr response) cur) =
     filter (\<lambda>m. msg_id m \<noteq> msg_id (tempUserMessage content clk)) (sess_messages session) @
       [userMessage content clk response, assistantMessage clk response]"
  by (simp add: displayedMessages_def sendMessage_settle_def Let_def)

lemma tabs_ok:
  "ws_session st = Some session \<Longrightarrow>
   ws_visualizationTabs (sendMessage st content clk (Inr response)) =
     ws_visualizationTabs st @ newChartTabs response @ newGraphTabs response"
  by (simp add: sendMessage_def sendMessage_settle_def sendMessage_begin_def Let_def)

lemma sample_session: "ws_session (stateWith messages) = Some (sessionWith messages)"
  by (simp add: stateWith_def)

lemma sample_messages: "sess_messages (sessionWith messages) = messages"
  by (simp add: sessionWith_def)

lemma temp_id_sample: "msg_id (tempUserMessage content sample_clock) = ''temp-5''"
  by (simp add: tempUserMessage_def sample_clock_def show_int_def show_nat.simps digit_char_def)

lemma sample_history_ids:
  "filter (\<lambda>m. msg_id m \<noteq> ''temp-5'') sample_history = sample_history"
  by (simp add: sample_history_def plainMessage_def)

lemma sendMessage_parts:
  "ws_session st = Some session \<Longrightarrow>
   sendMessage st content clk outcome =
     sendMessage_settle session content clk outcome (sendMessage_begin session content clk st)"
  by (simp add: sendMessage_def)

lemma tabs_begin:
  "ws_visualizationTabs (sendMessage_begin session content clk st) = ws_visualizationTabs st"
  by (simp add: sendMessage_begin_def)

lemma tabs_settle_ok:
  "ws_visualizationTabs (sendMessage_settle session content clk (Inr response) cur) =
     ws_visualizationTabs cur @ newChartTabs response @ newGraphTabs response"
  by (simp add: sendMessage_settle_def Let_def)

lemma report_temp_id: "msg_id (tempUserMessage content report_clock) = ''temp-6''"
  by (simp add: tempUserMessage_def report_clock_def show_int_def show_nat.simps digit_char_def)

lemma error_id_sample: "msg_id (errorChatMessage sample_clock text) = ''error-7''"
  by (simp add: errorChatMessage_def sample_clock_def show_int_def show_nat.simps digit_char_def)

lemma sample_history_idlist: "map msg_id sample_history = [''user-m1'', ''m1'']"
  by (simp add: sample_history_def plainMessage_def)

lemma firstInFlight_session: "ws_session firstInFlight = Some sessionInFlight"
  by (simp add: firstInFlight_def sessionInFlight_def sendMessage_begin_def sample_messages)

lemma bothInFlight_ids:
  "map msg_id (displayedMessages bothInFlight) = [''user-m1'', ''m1'', ''temp-5'', ''temp-6'']"
  by (simp add: bothInFlight_def displayed_begin sessionInFlight_def sample_history_idlist
      temp_id_sample report_temp_id)

lemma sessionInFlight_messages:
  "sess_messages sessionInFlight = sample_history @ [tempUserMessage ''top regions'' sample_clock]"
  by (simp add: sessionInFlight_def)

lemma tabs_bothInFlight: "ws_visualizationTabs bothInFlight = buildVizTabs sample_history"
  by (simp add: bothInFlight_def firstInFlight_def tabs_begin stateWith_def)

lemma new_tabs_length: "length (newChartTabs (responseWith mid) @ newGraphTabs (responseWith mid)) = 2"
  by (simp add: newChartTabs_def newGraphTabs_def responseWith_def charts_of_def graphs_of_def
      List.map_filter_simps)

lemma sample_tabs_length: "length (buildVizTabs sample_history) = 1"
  by (simp add: buildVizTabs_def sample_history_def plainMessage_def Let_def pushChartTab_def
      enumerate_eq_zip)

text \<open>
  C1, as the code has it. When the chat request fails, the handler writes as the messages of
  the session the list the call read when it started, then the user's message (the
  placeholder, with the text the user sent), then exactly one assistant message, flagged as
  an error and carrying the error text. When the list shown at that moment is still the
  list read at the start followed by the user's message, as it is when no other action of
  the store ran during the request, every message shown stays in place and the error
  message is added after them.
\<close>

theorem failed_turn_keeps_user_message:
  "displayedMessages (sendMessage_settle session content clk (Inl err) cur) =
     sess_messages session @
       [tempUserMessage content clk, errorChatMessage clk (caughtMessage err ''Failed to send message'')]
   \<and> (displayedMessages cur = sess_messages session @ [tempUserMessage content clk] \<longrightarrow>
        displayedMessages (sendMessage_settle session content clk (Inl err) cur) =
          displayedMessages cur @ [errorChatMessage clk (caughtMessage err ''Failed to send message'')])
   \<and> (ws_session st = Some session \<longrightarrow>
        displayedMessages (sendMessage_begin session content clk st) =
          sess_messages session @ [tempUserMessage content clk]
        \<and> displayedMessages (sendMessage st content clk (Inl err)) =
            displayedMessages (sendMessage_begin session content clk st) @
              [errorChatMessage clk (caughtMessage err ''Failed to send message'')])
   \<and> msg_role (tempUserMessage content clk) = User
   \<and> msg_content (tempUserMessage content clk) = content
   \<and> msg_isError (tempUserMessage content clk) = None
   \<and> msg_role (errorChatMessage clk (caughtMessage err ''Failed to send message'')) = Assistant
   \<and> msg_isError (errorChatMessage clk (caughtMessage err ''Failed to send message'')) = Some True
   \<and> msg_content (errorChatMessage clk (caughtMessage err ''Failed to send message'')) =
       caughtMessage err ''Failed to send message''
   \<and> caughtMessage (ErrorObj text) ''Failed to send message'' = text
   \<and> length (filter (\<lambda>m. msg_isError m = Some True)
               (displayedMessages (sendMessage_settle session content clk (Inl err) cur))) =
       Suc (length (filter (\<lambda>m. msg_isError m = Some True) (sess_messages session)))"
  by (simp add: displayed_begin displayed_failed displayed_settle_failed tempUserMessage_def
      errorChatMessage_def caughtMessage_def)

theorem failed_turn_keeps_user_message_witness:
  "ws_session (stateWith sample_history) = Some (sessionWith sample_history)
   \<and> displayedMessages (sendMessage (stateWith sample_history) ''top regions'' sample_clock
        (Inl (ErrorObj ''Internal error''))) =
       sample_history @
         [(plainMessage ''temp-5'' User ''top regions'')\<lparr> msg_timestamp := ''2026-01-01T10:01:00.000Z'' \<rparr>,
          (plainMessage ''error-7'' Assistant ''Internal error'')
            \<lparr> msg_timestamp := ''2026-01-01T10:01:02.000Z'', msg_isError := Some True \<rparr>]"
proof -
  have h: "ws_session (stateWith sample_history) = Some (sessionWith sample_history)"
    by (rule sample_session)
  from failed_turn_keeps_user_message [of "sessionWith sample_history" "''top regions''" sample_clock
      "ErrorObj ''Internal error''" "stateWith sample_history" "stateWith sample_history"]
  show ?thesis
    using h
    by (simp add: sample_messages errorChatMessage_def tempUserMessage_def caughtMessage_def
        plainMessage_def sample_clock_def show_int_def show_nat.simps digit_char_def)
qed

text \<open>
  C1 as it is stated fails when a second message is sent while the first request is in
  flight: the placeholder of the second call is shown, and the handler of the first call,
  which writes the list it read at its start, removes it.
\<close>

theorem in_flight_message_removed_counterexample:
  "ws_session firstInFlight = Some sessionInFlight
   \<and> map msg_id (displayedMessages bothInFlight) = [''user-m1'', ''m1'', ''temp-5'', ''temp-6'']
   \<and> map msg_id (displayedMessages (sendMessage_settle (sessionWith sample_history) ''top regions''
        sample_clock (Inl (ErrorObj ''Internal error'')) bothInFlight)) =
       [''user-m1'', ''m1'', ''temp-5'', ''error-7'']
   \<and> tempUserMessage reportText report_clock \<in> set (displayedMessages bothInFlight)
   \<and> tempUserMessage reportText report_clock \<notin> set (displayedMessages
        (sendMessage_settle (sessionWith sample_history) ''top regions'' sample_clock
          (Inl (ErrorObj ''Internal error'')) bothInFlight))"
proof -
  let ?after = "sendMessage_settle (sessionWith sample_history) ''top regions'' sample_clock
      (Inl (ErrorObj ''Internal error'')) bothInFlight"
  have shown: "tempUserMessage reportText report_clock \<in> set (displayedMessages bothInFlight)"
    by (simp add: bothInFlight_def displayed_begin)
  have after: "map msg_id (displayedMessages ?after) = [''user-m1'', ''m1'', ''temp-5'', ''error-7'']"
    by (simp add: displayed_settle_failed sample_messages sample_history_idlist temp_id_sample
        error_id_sample)
  have "msg_id (tempUserMessage reportText report_clock) \<notin> set (map msg_id (displayedMessages ?after))"
    by (simp only: after report_temp_id) simp
  then have gone: "tempUserMessage reportText report_clock \<notin> set (displayedMessages ?after)"
    by auto
  show ?thesis
    using firstInFlight_session bothInFlight_ids after shown gone by simp
qed


text \<open>
  C2. After a successful turn the last message of the session is the assistant message
  built from the response; its \<open>toolCalls\<close> field is the response's list when that list is
  not empty (and undefined otherwise), so the records it carries are the response's records,
  as many and in the same order.
\<close>

theorem assistant_message_carries_toolCalls:
  assumes "ws_session st = Some session"
  shows "last (displayedMessages (sendMessage st content clk (Inr response))) = assistantMessage clk response
       \<and> msg_role (assistantMessage clk response) = Assistant
       \<and> msg_toolCalls (assistantMessage clk response) =
           (if resp_toolCalls response \<noteq> [] then Some (resp_toolCalls response) else None)
       \<and> toolCallRecords (assistantMessage clk response) = resp_toolCalls response
       \<and> length (toolCallRecords (assistantMessage clk response)) = length (resp_toolCalls response)"
  using assms
  by (simp add: displayed_ok assistantMessage_def toolCallRecords_def Let_def)

theorem assistant_message_carries_toolCalls_witness:
  "ws_session (stateWith sample_history) = Some (sessionWith sample_history)
   \<and> msg_toolCalls (last (displayedMessages
        (sendMessage (stateWith sample_history) ''top regions'' sample_clock (Inr (responseWith ''m2''))))) =
       Some sample_toolCalls
   \<and> length (toolCallRecords (last (displayedMessages
        (sendMessage (stateWith sample_history) ''top regions'' sample_clock (Inr (responseWith ''m2'')))))) = 2"
proof -
  have h: "ws_session (stateWith sample_history) = Some (sessionWith sample_history)"
    by (rule sample_session)
  have tcs: "resp_toolCalls (responseWith ''m2'') = sample_toolCalls"
    by (simp add: responseWith_def)
  have two: "length sample_toolCalls = 2" "sample_toolCalls \<noteq> []"
    by (simp_all add: sample_toolCalls_def)
  from assistant_message_carries_toolCalls [OF h, of "''top regions''" sample_clock "responseWith ''m2''"]
  show ?thesis
    using h by (simp add: tcs two)
qed

text \<open>
  C3, as the code has it. A call of \<open>sendMessage\<close> writes a list built from the list it
  read when it started, whatever the store holds when the call resumes; it keeps those
  messages as they are and in their order, and only appends at the end. On success the list
  is the former list without the messages that bear the id of the optimistic placeholder,
  followed by the user and the assistant message; on failure it is the whole former list
  followed by the placeholder and the error message. When no former message bears the
  placeholder's id, the former list is a prefix of the new one. The same holds of a whole
  call that no other action of the store interrupts; without a session the call changes
  nothing.
\<close>

theorem messages_only_appended:
  "displayedMessages (sendMessage_settle session0 content clk outcome cur) =
     (case outcome of
        Inr response \<Rightarrow>
          filter (\<lambda>m. msg_id m \<noteq> msg_id (tempUserMessage content clk)) (sess_messages session0) @
            [userMessage content clk response, assistantMessage clk response]
      | Inl err \<Rightarrow>
          sess_messages session0 @
            [tempUserMessage content clk,
             errorChatMessage clk (caughtMessage err ''Failed to send message'')])
   \<and> ((\<forall>m \<in> set (sess_messages session0). msg_id m \<noteq> msg_id (tempUserMessage content clk)) \<longrightarrow>
        take (length (sess_messages session0))
          (displayedMessages (sendMessage_settle session0 content clk outcome cur)) =
          sess_messages session0)
   \<and> (case ws_session st of
      None \<Rightarrow> sendMessage st content clk outcome = st
    | Some session \<Rightarrow>
        displayedMessages (sendMessage st content clk outcome) =
          (case outcome of
             Inr response \<Rightarrow>
               filter (\<lambda>m. msg_id m \<noteq> msg_id (tempUserMessage content clk)) (sess_messages session) @
                 [userMessage content clk response, assistantMessage clk response]
           | Inl err \<Rightarrow>
               sess_messages session @
                 [tempUserMessage content clk,
                  errorChatMessage clk (caughtMessage err ''Failed to send message'')])
        \<and> ((\<forall>m \<in> set (sess_messages session). msg_id m \<noteq> msg_id (tempUserMessage content clk)) \<longrightarrow>
             take (length (sess_messages session)) (displayedMessages (sendMessage st content clk outcome)) =
               sess_messages session))"
proof -
  have unfiltered: "filter (\<lambda>m. msg_id m \<noteq> msg_id (tempUserMessage content clk)) (sess_messages s) =
          sess_messages s"
    if "\<forall>m \<in> set (sess_messages s). msg_id m \<noteq> msg_id (tempUserMessage content clk)" for s
    using that by (simp add: filter_id_conv)
  show ?thesis
  proof (cases "ws_session st")
    case None
    then show ?thesis
      using unfiltered [of session0]
      by (cases outcome) (simp_all add: sendMessage_no_session displayed_settle_failed displayed_settle_ok)
  next
    case (Some session)
    show ?thesis
    proof (cases outcome)
      case (Inl err)
      with Some show ?thesis by (simp add: displayed_failed displayed_settle_failed)
    next
      case (Inr response)
      with Some unfiltered [of session0] unfiltered [of session] show ?thesis
        by (simp add: displayed_ok displayed_settle_ok)
    qed
  qed
qed

theorem messages_only_appended_witness:
  "displayedMessages (sendMessage (stateWith sample_history) ''top regions'' sample_clock
        (Inr (responseWith ''m2''))) =
     sample_history @
       [userMessage ''top regions'' sample_clock (responseWith ''m2''),
        assistantMessage sample_clock (responseWith ''m2'')]
   \<and> take 2 (displayedMessages (sendMessage (stateWith sample_history) ''top regions'' sample_clock
        (Inr (responseWith ''m2'')))) = sample_history
   \<and> displayedMessages (sendMessage (stateWith sample_history) ''top regions'' sample_clock
        (Inl NonError)) =
     sample_history @
       [tempUserMessage ''top regions'' sample_clock,
        errorChatMessage sample_clock ''Failed to send message'']"
proof -
  have len: "length sample_history = 2"
    by (simp add: sample_history_def)
  show ?thesis
    using messages_only_appended [of "sessionWith sample_history" "''top regions''" sample_clock
        "Inr (responseWith ''m2'')" "stateWith sample_history" "stateWith sample_history"]
      messages_only_appended [of "sessionWith sample_history" "''top regions''" sample_clock
        "Inl NonError" "stateWith sample_history" "stateWith sample_history"]
    by (simp add: sample_session sample_messages temp_id_sample sample_history_ids len caughtMessage_def)
qed

text \<open>
  C3 as it is stated fails for a session that holds an assistant message under the id that
  the placeholder takes: that message is not the placeholder, and a successful call drops
  it. It fails as well for a message that another call added while the request was in
  flight: the list written is built from the list read at the start.
\<close>

theorem former_message_dropped_counterexample:
  "ws_session (stateWith colliding_history) = Some (sessionWith colliding_history)
   \<and> map msg_id (displayedMessages (stateWith colliding_history)) = [''temp-5'']
   \<and> map msg_role (displayedMessages (stateWith colliding_history)) = [Assistant]
   \<and> map msg_id (displayedMessages (sendMessage (stateWith colliding_history) ''top regions''
        sample_clock (Inr (responseWith ''m2'')))) = [''user-m2'', ''m2'']
   \<and> hd colliding_history \<in> set (displayedMessages (stateWith colliding_history))
   \<and> hd colliding_history \<noteq> tempUserMessage ''top regions'' sample_clock
   \<and> hd colliding_history \<notin> set (displayedMessages (sendMessage (stateWith colliding_history)
        ''top regions'' sample_clock (Inr (responseWith ''m2''))))
   \<and> map msg_id (displayedMessages bothInFlight) = [''user-m1'', ''m1'', ''temp-5'', ''temp-6'']
   \<and> map msg_id (displayedMessages (sendMessage_settle (sessionWith sample_history) ''top regions''
        sample_clock (Inr (responseWith ''m2'')) bothInFlight)) =
       [''user-m1'', ''m1'', ''user-m2'', ''m2'']"
proof -
  let ?after = "sendMessage (stateWith colliding_history) ''top regions'' sample_clock
      (Inr (responseWith ''m2''))"
  have h: "ws_session (stateWith colliding_history) = Some (sessionWith colliding_history)"
    by (rule sample_session)
  have before: "displayedMessages (stateWith colliding_history) = colliding_history"
    by (simp add: displayedMessages_def sample_session sample_messages)
  have ids: "map msg_id colliding_history = [''temp-5'']" "map msg_role colliding_history = [Assistant]"
    by (simp_all add: colliding_history_def plainMessage_def)
  have dropped: "filter (\<lambda>m. msg_id m \<noteq> ''temp-5'') colliding_history = []"
    by (simp add: colliding_history_def plainMessage_def)
  have new_ids: "msg_id (userMessage ''top regions'' sample_clock (responseWith ''m2'')) = ''user-m2''"
    "msg_id (assistantMessage sample_clock (responseWith ''m2'')) = ''m2''"
    by (simp_all add: userMessage_def assistantMessage_def responseWith_def Let_def)
  have after: "map msg_id (displayedMessages ?after) = [''user-m2'', ''m2'']"
    by (simp add: displayed_ok [OF h] sample_messages temp_id_sample dropped new_ids)
  have head: "msg_id (hd colliding_history) = ''temp-5''" "msg_role (hd colliding_history) = Assistant"
    by (simp_all add: colliding_history_def plainMessage_def)
  have "msg_id (hd colliding_history) \<notin> set (map msg_id (displayedMessages ?after))"
    by (simp only: after head) simp
  then have gone: "hd colliding_history \<notin> set (displayedMessages ?after)"
    by auto
  have "colliding_history \<noteq> []"
    by (simp add: colliding_history_def)
  then have "hd colliding_history \<in> set colliding_history"
    by (rule hd_in_set)
  then have present: "hd colliding_history \<in> set (displayedMessages (stateWith colliding_history))"
    by (simp only: before)
  have "msg_role (tempUserMessage ''top regions'' sample_clock) = User"
    by (simp add: tempUserMessage_def)
  with head have other: "hd colliding_history \<noteq> tempUserMessage ''top regions'' sample_clock"
    by auto
  have overlap: "map msg_id (displayedMessages (sendMessage_settle (sessionWith sample_history)
        ''top regions'' sample_clock (Inr (responseWith ''m2'')) bothInFlight)) =
       [''user-m1'', ''m1'', ''user-m2'', ''m2'']"
    by (simp add: displayed_settle_ok sample_messages temp_id_sample sample_history_ids
        sample_history_idlist new_ids)
  show ?thesis
    using h before ids after present other gone bothInFlight_ids overlap by simp
qed

text \<open>
  C7, as the code has it. While the request is in flight the placeholder, whose id begins
  with \<open>temp-\<close>, ends the list. After a successful call the list is the former list without
  the messages that bear the placeholder's id, then a user message with the id
  \<open>user-<messageId>\<close> and the text sent, then at once the assistant message, whose id is the
  server's \<open>messageId\<close>. The placeholder itself is gone; no message bears its id, provided
  the server's \<open>messageId\<close> is not that very id.
\<close>

theorem placeholder_superseded:
  assumes "ws_session st = Some session"
  shows "displayedMessages (sendMessage_begin session content clk st) =
           sess_messages session @ [tempUserMessage content clk]
       \<and> take 5 (msg_id (tempUserMessage content clk)) = ''temp-''
       \<and> displayedMessages (sendMessage st content clk (Inr response)) =
           filter (\<lambda>m. msg_id m \<noteq> msg_id (tempUserMessage content clk)) (sess_messages session) @
             [userMessage content clk response, assistantMessage clk response]
       \<and> msg_id (userMessage content clk response) = ''user-'' @ resp_messageId response
       \<and> msg_role (userMessage content clk response) = User
       \<and> msg_content (userMessage content clk response) = content
       \<and> msg_id (assistantMessage clk response) = resp_messageId response
       \<and> tempUserMessage content clk \<notin> set (displayedMessages (sendMessage st content clk (Inr response)))
       \<and> (resp_messageId response \<noteq> msg_id (tempUserMessage content clk) \<longrightarrow>
            (\<forall>m \<in> set (displayedMessages (sendMessage st content clk (Inr response))).
               msg_id m \<noteq> msg_id (tempUserMessage content clk)))"
proof -
  have user_id: "msg_id (userMessage content clk response) \<noteq> msg_id (tempUserMessage content clk)"
    by (simp add: userMessage_def tempUserMessage_def)
  have roles: "msg_role (assistantMessage clk response) \<noteq> msg_role (tempUserMessage content clk)"
    by (simp add: assistantMessage_def tempUserMessage_def Let_def)
  have not_user: "tempUserMessage content clk \<noteq> userMessage content clk response"
    using user_id by auto
  have not_assistant: "tempUserMessage content clk \<noteq> assistantMessage clk response"
    using roles by auto
  have gone: "tempUserMessage content clk \<notin> set (displayedMessages (sendMessage st content clk (Inr response)))"
    using assms not_user not_assistant by (simp add: displayed_ok)
  have ids: "\<forall>m \<in> set (displayedMessages (sendMessage st content clk (Inr response))).
               msg_id m \<noteq> msg_id (tempUserMessage content clk)"
    if "resp_messageId response \<noteq> msg_id (tempUserMessage content clk)"
  proof -
    have "msg_id (assistantMessage clk response) \<noteq> msg_id (tempUserMessage content clk)"
      using that by (simp add: assistantMessage_def Let_def)
    with assms user_id show ?thesis by (simp add: displayed_ok)
  qed
  have prefix: "take 5 (msg_id (tempUserMessage content clk)) = ''temp-''"
    by (simp add: tempUserMessage_def)
  show ?thesis
    using assms gone ids prefix
    by (simp add: displayed_begin displayed_ok userMessage_def assistantMessage_def Let_def)
qed

theorem placeholder_superseded_witness:
  "ws_session (stateWith sample_history) = Some (sessionWith sample_history)
   \<and> resp_messageId (responseWith ''m2'') \<noteq> msg_id (tempUserMessage ''top regions'' sample_clock)
   \<and> map msg_id (displayedMessages (sendMessage_begin (sessionWith sample_history) ''top regions''
        sample_clock (stateWith sample_history))) = [''user-m1'', ''m1'', ''temp-5'']
   \<and> map msg_id (displayedMessages (sendMessage (stateWith sample_history) ''top regions'' sample_clock
        (Inr (responseWith ''m2'')))) = [''user-m1'', ''m1'', ''user-m2'', ''m2'']
   \<and> ''temp-5'' \<notin> msg_id ` set (displayedMessages (sendMessage (stateWith sample_history) ''top regions''
        sample_clock (Inr (responseWith ''m2''))))"
proof -
  have h: "ws_session (stateWith sample_history) = Some (sessionWith sample_history)"
    by (rule sample_session)
  have fresh: "resp_messageId (responseWith ''m2'') \<noteq> msg_id (tempUserMessage ''top regions'' sample_clock)"
    by (simp add: temp_id_sample responseWith_def)
  have ids: "map msg_id sample_history = [''user-m1'', ''m1'']"
    by (simp add: sample_history_def plainMessage_def)
  have mid: "resp_messageId (responseWith ''m2'') = ''m2''"
    by (simp add: responseWith_def)
  from placeholder_superseded [OF h, of "''top regions''" sample_clock "responseWith ''m2''"] fresh
  show ?thesis
    using h
    by (auto simp add: temp_id_sample sample_messages sample_history_ids ids mid)
qed

text \<open>
  C7 as it is stated fails when the server answers with a \<open>messageId\<close> that is the
  temporary id: the assistant message takes that id as it is.
\<close>

theorem placeholder_id_remains_counterexample:
  "ws_session (stateWith sample_history) = Some (sessionWith sample_history)
   \<and> msg_id (last (displayedMessages (sendMessage (stateWith sample_history) ''top regions''
        sample_clock (Inr (responseWith ''temp-5''))))) =
     msg_id (tempUserMessage ''top regions'' sample_clock)"
  by (simp add: sample_session displayed_ok temp_id_sample assistantMessage_def responseWith_def Let_def)

lemma buildVizTabs_filter:
  "\<forall>m \<in> set messages. \<not> keep m \<longrightarrow> buildVizTabs [m] = [] \<Longrightarrow>
   buildVizTabs (filter keep messages) = buildVizTabs messages"
proof (induction messages)
  case Nil
  show ?case by simp
next
  case (Cons msg rest)
  then have rest: "buildVizTabs (filter keep rest) = buildVizTabs rest"
    by simp
  show ?case
  proof (cases "keep msg")
    case True
    then show ?thesis
      using rest buildVizTabs_Cons [of msg "filter keep rest"] buildVizTabs_Cons [of msg rest]
      by simp
  next
    case False
    with Cons.prems have "buildVizTabs [msg] = []"
      by simp
    with False show ?thesis
      using rest buildVizTabs_Cons [of msg rest] by simp
  qed
qed

lemma loadSession_tabs:
  "ws_visualizationTabs (loadSession st0 (Inr session)) = buildVizTabs (sess_messages session)"
  by (simp add: loadSession_def Let_def)

text \<open>
  C8, as the code has it. Take a call that read a session at its start, and let the tabs
  that the store holds when the response arrives be \<open>buildVizTabs\<close> of that session's
  messages: so it is for a session whose tabs were \<open>buildVizTabs\<close> of its messages before
  the turn, when no other action of the store changes the tabs while the request is in
  flight. Let no message that bears the id of the optimistic placeholder contribute a tab.
  Then after a successful call the tabs are again \<open>buildVizTabs\<close> of the messages: the call
  appended the chart tabs and then the graph tabs of the response, and so does
  \<open>buildVizTabs\<close> for the new assistant message, tab for tab. Reloading, which is
  \<open>loadSession\<close> on a fetched session that holds these messages, builds the same tabs.
\<close>

theorem live_tabs_agree_with_rebuilt_tabs:
  assumes "ws_visualizationTabs cur = buildVizTabs (sess_messages session)"
    and "\<forall>m \<in> set (sess_messages session).
           msg_id m = msg_id (tempUserMessage content clk) \<longrightarrow> buildVizTabs [m] = []"
  shows "ws_visualizationTabs (sendMessage_settle session content clk (Inr response) cur) =
           buildVizTabs (displayedMessages (sendMessage_settle session content clk (Inr response) cur))
       \<and> ws_visualizationTabs (sendMessage_settle session content clk (Inr response) cur) =
           ws_visualizationTabs cur @ newChartTabs response @ newGraphTabs response
       \<and> buildVizTabs (displayedMessages (sendMessage_settle session content clk (Inr response) cur)) =
           buildVizTabs (sess_messages session) @ buildVizTabs [assistantMessage clk response]
       \<and> buildVizTabs [assistantMessage clk response] = newChartTabs response @ newGraphTabs response
       \<and> (sess_messages reloaded =
             displayedMessages (sendMessage_settle session content clk (Inr response) cur) \<longrightarrow>
           ws_visualizationTabs (loadSession st0 (Inr reloaded)) =
             ws_visualizationTabs (sendMessage_settle session content clk (Inr response) cur))
       \<and> map_option (\<lambda>session'. ws_visualizationTabs (loadSession st0 (Inr session')))
           (ws_session (sendMessage_settle session content clk (Inr response) cur)) =
           Some (ws_visualizationTabs (sendMessage_settle session content clk (Inr response) cur))
       \<and> (ws_session st = Some session \<and> ws_visualizationTabs st = buildVizTabs (sess_messages session) \<longrightarrow>
           ws_visualizationTabs (sendMessage st content clk (Inr response)) =
             buildVizTabs (displayedMessages (sendMessage st content clk (Inr response)))
           \<and> ws_visualizationTabs (sendMessage st content clk (Inr response)) =
               ws_visualizationTabs st @ newChartTabs response @ newGraphTabs response
           \<and> (sess_messages reloaded = displayedMessages (sendMessage st content clk (Inr response)) \<longrightarrow>
               ws_visualizationTabs (loadSession st0 (Inr reloaded)) =
                 ws_visualizationTabs (sendMessage st content clk (Inr response))))"
proof -
  let ?kept = "filter (\<lambda>m. msg_id m \<noteq> msg_id (tempUserMessage content clk)) (sess_messages session)"
  have kept: "buildVizTabs ?kept = buildVizTabs (sess_messages session)"
    using assms(2) by (intro buildVizTabs_filter) simp
  have user: "buildVizTabs [userMessage content clk response] = []"
    by (rule buildVizTabs_not_assistant) (simp add: userMessage_def)
  have rebuilt: "buildVizTabs (displayedMessages (sendMessage_settle session content clk (Inr response) any)) =
      buildVizTabs (sess_messages session) @ buildVizTabs [assistantMessage clk response]" for any
  proof -
    have "buildVizTabs (displayedMessages (sendMessage_settle session content clk (Inr response) any)) =
          buildVizTabs ?kept @ buildVizTabs ([userMessage content clk response] @ [assistantMessage clk response])"
      by (simp add: displayed_settle_ok buildVizTabs_append)
    also have "\<dots> = buildVizTabs (sess_messages session) @ buildVizTabs [assistantMessage clk response]"
      by (simp only: buildVizTabs_append kept user append_Nil)
    finally show ?thesis .
  qed
  have agree: "ws_visualizationTabs (sendMessage_settle session content clk (Inr response) any) =
      buildVizTabs (displayedMessages (sendMessage_settle session content clk (Inr response) any))"
    if "ws_visualizationTabs any = buildVizTabs (sess_messages session)" for any
    using that by (simp add: tabs_settle_ok rebuilt buildVizTabs_assistantMessage)
  let ?after = "sendMessage_settle session content clk (Inr response) cur"
  have some: "ws_session ?after \<noteq> None"
    by (simp add: sendMessage_settle_def Let_def)
  have reload: "map_option (\<lambda>session'. ws_visualizationTabs (loadSession st0 (Inr session')))
           (ws_session ?after) = Some (ws_visualizationTabs ?after)"
    using some agree [OF assms(1)] by (auto simp: loadSession_tabs displayedMessages_def)
  have whole: "ws_visualizationTabs (sendMessage st content clk (Inr response)) =
        buildVizTabs (displayedMessages (sendMessage st content clk (Inr response)))
      \<and> ws_visualizationTabs (sendMessage st content clk (Inr response)) =
          ws_visualizationTabs st @ newChartTabs response @ newGraphTabs response"
    if "ws_session st = Some session" "ws_visualizationTabs st = buildVizTabs (sess_messages session)"
    using that agree [of "sendMessage_begin session content clk st"]
    by (simp add: sendMessage_parts tabs_begin tabs_settle_ok)
  have c1: "ws_visualizationTabs ?after = buildVizTabs (displayedMessages ?after)"
    using assms(1) by (rule agree)
  have c2: "ws_visualizationTabs ?after = ws_visualizationTabs cur @ newChartTabs response @ newGraphTabs response"
    by (rule tabs_settle_ok)
  have c3: "buildVizTabs (displayedMessages ?after) =
      buildVizTabs (sess_messages session) @ buildVizTabs [assistantMessage clk response]"
    by (rule rebuilt)
  have c4: "buildVizTabs [assistantMessage clk response] = newChartTabs response @ newGraphTabs response"
    by (rule buildVizTabs_assistantMessage)
  have c5: "ws_visualizationTabs (loadSession st0 (Inr reloaded)) = ws_visualizationTabs ?after"
    if "sess_messages reloaded = displayedMessages ?after"
    using that c1 by (simp add: loadSession_tabs)
  have c7: "ws_visualizationTabs (loadSession st0 (Inr reloaded)) =
      ws_visualizationTabs (sendMessage st content clk (Inr response))"
    if "ws_session st = Some session" "ws_visualizationTabs st = buildVizTabs (sess_messages session)"
      "sess_messages reloaded = displayedMessages (sendMessage st content clk (Inr response))"
    using that whole by (simp add: loadSession_tabs)
  show ?thesis
    using c1 c2 c3 c4 c5 reload whole c7 by blast
qed

lemma sample_tabs:
  "buildVizTabs sample_history =
     [\<lparr> tab_id = ''m1-chart-0'', tab_title = ''Sales'', tab_vizType = ChartViz, tab_spec = VChart sample_chart \<rparr>]"
  by (simp add: buildVizTabs_def sample_history_def plainMessage_def Let_def pushChartTab_def
      enumerate_eq_zip show_nat.simps digit_char_def sample_chart_def)

theorem live_tabs_agree_with_rebuilt_tabs_witness:
  "ws_session (stateWith sample_history) = Some (sessionWith sample_history)
   \<and> ws_visualizationTabs (stateWith sample_history) = buildVizTabs (sess_messages (sessionWith sample_history))
   \<and> ws_visualizationTabs (sendMessage (stateWith sample_history) ''top regions'' sample_clock
        (Inr (responseWith ''m2''))) =
       [\<lparr> tab_id = ''m1-chart-0'', tab_title = ''Sales'', tab_vizType = ChartViz, tab_spec = VChart sample_chart \<rparr>,
        \<lparr> tab_id = ''m2-chart-0'', tab_title = ''Sales'', tab_vizType = ChartViz, tab_spec = VChart sample_chart \<rparr>,
        \<lparr> tab_id = ''m2-graph-0'', tab_title = ''Graph 1'', tab_vizType = GraphViz, tab_spec = VGraph sample_graph \<rparr>]
   \<and> buildVizTabs (displayedMessages (sendMessage (stateWith sample_history) ''top regions'' sample_clock
        (Inr (responseWith ''m2'')))) =
       ws_visualizationTabs (sendMessage (stateWith sample_history) ''top regions'' sample_clock
        (Inr (responseWith ''m2'')))"
proof -
  have h1: "ws_session (stateWith sample_history) = Some (sessionWith sample_history)"
    by (rule sample_session)
  have h2: "ws_visualizationTabs (stateWith sample_history) = buildVizTabs (sess_messages (sessionWith sample_history))"
    by (simp add: stateWith_def sample_messages)
  have h3: "\<forall>m \<in> set (sess_messages (sessionWith sample_history)).
           msg_id m = msg_id (tempUserMessage ''top regions'' sample_clock) \<longrightarrow> buildVizTabs [m] = []"
    by (simp add: sample_messages temp_id_sample sample_history_def plainMessage_def)
  have new: "newChartTabs (responseWith ''m2'') @ newGraphTabs (responseWith ''m2'') =
       [\<lparr> tab_id = ''m2-chart-0'', tab_title = ''Sales'', tab_vizType = ChartViz, tab_spec = VChart sample_chart \<rparr>,
        \<lparr> tab_id = ''m2-graph-0'', tab_title = ''Graph 1'', tab_vizType = GraphViz, tab_spec = VGraph sample_graph \<rparr>]"
    by (simp add: newChartTabs_def newGraphTabs_def responseWith_def charts_of_def graphs_of_def
        List.map_filter_simps enumerate_eq_zip show_nat.simps digit_char_def sample_chart_def sample_graph_def)
  have agree: "ws_visualizationTabs (sendMessage (stateWith sample_history) ''top regions'' sample_clock
        (Inr (responseWith ''m2''))) =
      buildVizTabs (displayedMessages (sendMessage (stateWith sample_history) ''top regions'' sample_clock
        (Inr (responseWith ''m2''))))"
    using live_tabs_agree_with_rebuilt_tabs [OF h2 h3, of "responseWith ''m2''" "sessionWith sample_history"
        "stateWith sample_history" "stateWith sample_history"] h1 h2
    by blast
  have live: "ws_visualizationTabs (sendMessage (stateWith sample_history) ''top regions'' sample_clock
        (Inr (responseWith ''m2''))) =
       [\<lparr> tab_id = ''m1-chart-0'', tab_title = ''Sales'', tab_vizType = ChartViz, tab_spec = VChart sample_chart \<rparr>,
        \<lparr> tab_id = ''m2-chart-0'', tab_title = ''Sales'', tab_vizType = ChartViz, tab_spec = VChart sample_chart \<rparr>,
        \<lparr> tab_id = ''m2-graph-0'', tab_title = ''Graph 1'', tab_vizType = GraphViz, tab_spec = VGraph sample_graph \<rparr>]"
    using new by (simp add: tabs_ok [OF h1] h2 sample_messages sample_tabs)
  show ?thesis
    using h1 h2 agree live by simp
qed

text \<open>
  C8 as it is stated fails for a session that holds an assistant message with a chart under
  the id that the placeholder takes: the call drops that message from the list and keeps
  its tab. It fails as well when a second call is answered while the first is in flight:
  the first call then adds its tabs to the tabs of both and writes the messages it read at
  its start, which lack the second answer.
\<close>

theorem live_tabs_disagree_counterexample:
  "ws_session (stateWith colliding_history) = Some (sessionWith colliding_history)
   \<and> ws_visualizationTabs (stateWith colliding_history) = buildVizTabs (sess_messages (sessionWith colliding_history))
   \<and> length (ws_visualizationTabs (sendMessage (stateWith colliding_history) ''top regions'' sample_clock
        (Inr (responseWith ''m2'')))) = 3
   \<and> length (buildVizTabs (displayedMessages (sendMessage (stateWith colliding_history) ''top regions''
        sample_clock (Inr (responseWith ''m2''))))) = 2
   \<and> ws_visualizationTabs (sendMessage (stateWith colliding_history) ''top regions'' sample_clock
        (Inr (responseWith ''m2''))) \<noteq>
     buildVizTabs (displayedMessages (sendMessage (stateWith colliding_history) ''top regions''
        sample_clock (Inr (responseWith ''m2''))))
   \<and> ws_visualizationTabs (stateWith sample_history) = buildVizTabs (sess_messages (sessionWith sample_history))
   \<and> ws_session firstInFlight = Some sessionInFlight
   \<and> length (ws_visualizationTabs (sendMessage_settle (sessionWith sample_history) ''top regions''
        sample_clock (Inr (responseWith ''m2'')) secondAnswered)) = 5
   \<and> length (buildVizTabs (displayedMessages (sendMessage_settle (sessionWith sample_history)
        ''top regions'' sample_clock (Inr (responseWith ''m2'')) secondAnswered))) = 3"
proof -
  let ?overlap = "sendMessage_settle (sessionWith sample_history) ''top regions'' sample_clock
      (Inr (responseWith ''m2'')) secondAnswered"
  have o1: "ws_visualizationTabs (stateWith sample_history) = buildVizTabs (sess_messages (sessionWith sample_history))"
    by (simp add: stateWith_def sample_messages)
  have second: "length (ws_visualizationTabs secondAnswered) = 3"
    using new_tabs_length [of "''m3''"]
    by (simp add: secondAnswered_def tabs_settle_ok tabs_bothInFlight sample_tabs_length)
  have o2: "length (ws_visualizationTabs ?overlap) = 5"
    using new_tabs_length [of "''m2''"] second by (simp add: tabs_settle_ok)
  have user2: "buildVizTabs [userMessage ''top regions'' sample_clock (responseWith ''m2'')] = []"
    by (rule buildVizTabs_not_assistant) (simp add: userMessage_def)
  have "buildVizTabs (displayedMessages ?overlap) =
      buildVizTabs sample_history @
        buildVizTabs ([userMessage ''top regions'' sample_clock (responseWith ''m2'')] @
          [assistantMessage sample_clock (responseWith ''m2'')])"
    by (simp add: displayed_settle_ok sample_messages temp_id_sample sample_history_ids
        buildVizTabs_append)
  also have "\<dots> = buildVizTabs sample_history @
      (newChartTabs (responseWith ''m2'') @ newGraphTabs (responseWith ''m2''))"
    by (simp only: buildVizTabs_append user2 append_Nil buildVizTabs_assistantMessage)
  finally have o3: "length (buildVizTabs (displayedMessages ?overlap)) = 3"
    using new_tabs_length [of "''m2''"] by (simp add: sample_tabs_length)
  have h1: "ws_session (stateWith colliding_history) = Some (sessionWith colliding_history)"
    by (rule sample_session)
  have h2: "ws_visualizationTabs (stateWith colliding_history) = buildVizTabs (sess_messages (sessionWith colliding_history))"
    by (simp add: stateWith_def sample_messages)
  have old: "length (buildVizTabs colliding_history) = 1"
    by (simp add: buildVizTabs_def colliding_history_def plainMessage_def Let_def pushChartTab_def
        enumerate_eq_zip)
  have new: "length (newChartTabs (responseWith ''m2'') @ newGraphTabs (responseWith ''m2'')) = 2"
    by (simp add: newChartTabs_def newGraphTabs_def responseWith_def charts_of_def graphs_of_def
        List.map_filter_simps)
  have live: "length (ws_visualizationTabs (sendMessage (stateWith colliding_history) ''top regions''
      sample_clock (Inr (responseWith ''m2'')))) = 3"
    using old new by (simp add: tabs_ok [OF h1] h2 sample_messages)
  have dropped: "filter (\<lambda>m. msg_id m \<noteq> ''temp-5'') colliding_history = []"
    by (simp add: colliding_history_def plainMessage_def)
  have user: "buildVizTabs [userMessage ''top regions'' sample_clock (responseWith ''m2'')] = []"
    by (rule buildVizTabs_not_assistant) (simp add: userMessage_def)
  have rebuilt: "length (buildVizTabs (displayedMessages (sendMessage (stateWith colliding_history)
      ''top regions'' sample_clock (Inr (responseWith ''m2''))))) = 2"
    using new buildVizTabs_Cons [of "userMessage ''top regions'' sample_clock (responseWith ''m2'')"
        "[assistantMessage sample_clock (responseWith ''m2'')]"]
    by (simp add: displayed_ok [OF h1] sample_messages temp_id_sample dropped user
        buildVizTabs_assistantMessage)
  show ?thesis
    using h1 h2 live rebuilt o1 o2 o3 firstInFlight_session by auto
qed

section \<open>The last query result\<close>

lemma lastQueryResult_spec_last:
  "lastQueryResult_spec messages =
     (if filter carriesQueryResults messages = [] then None
      else (case msg_queryResults (last (filter carriesQueryResults messages)) of
              None \<Rightarrow> None
            | Some qrs \<Rightarrow> Some \<lparr> snap_data = qr_data (last qrs), snap_columns = qr_columns (last qrs) \<rparr>))"
  by (cases "filter carriesQueryResults messages") (simp_all add: lastQueryResult_spec_def)

lemma lastQueryResult_spec_snoc:
  "lastQueryResult_spec (messages @ [msg]) =
     (if carriesQueryResults msg
      then (case msg_queryResults msg of
              None \<Rightarrow> None
            | Some qrs \<Rightarrow> Some \<lparr> snap_data = qr_data (last qrs), snap_columns = qr_columns (last qrs) \<rparr>)
      else lastQueryResult_spec messages)"
  by (simp add: lastQueryResult_spec_last)

lemma findLastQueryResult_from_spec:
  "n \<le> length messages \<Longrightarrow>
   findLastQueryResult_from messages n = lastQueryResult_spec (take n messages)"
proof (induction n)
  case 0
  show ?case by (simp add: lastQueryResult_spec_def)
next
  case (Suc n)
  then have n: "n < length messages" and IH: "findLastQueryResult_from messages n = lastQueryResult_spec (take n messages)"
    by simp_all
  have take: "take (Suc n) messages = take n messages @ [messages ! n]"
    using n by (rule take_Suc_conv_app_nth)
  show ?case
  proof (cases "msg_queryResults (messages ! n)")
    case None
    then show ?thesis
      by (simp add: take lastQueryResult_spec_snoc IH carriesQueryResults_def Let_def)
  next
    case (Some qrs)
    then show ?thesis
      by (simp add: take lastQueryResult_spec_snoc IH carriesQueryResults_def Let_def last_conv_nth)
  qed
qed

lemma lastQueryResult_spec_None:
  "lastQueryResult_spec messages = None \<longleftrightarrow> filter carriesQueryResults messages = []"
proof (cases "filter carriesQueryResults messages")
  case Nil
  then show ?thesis by (simp add: lastQueryResult_spec_def)
next
  case (Cons c cs)
  then have "last (c # cs) \<in> set (filter carriesQueryResults messages)"
    by (metis last_in_set list.distinct(1))
  then have "carriesQueryResults (last (c # cs))"
    by simp
  then obtain qrs where "msg_queryResults (last (c # cs)) = Some qrs"
    by (auto simp: carriesQueryResults_def split: option.splits)
  with Cons show ?thesis
    by (simp add: lastQueryResult_spec_def)
qed

text \<open>
  C9. \<open>findLastQueryResult\<close> returns what the specification describes: of the most recent
  assistant message with a non-empty \<open>queryResults\<close>, the data and columns of the last
  result; it returns null exactly when no message of the list is such a message. A
  successful \<open>loadSession\<close> stores this value as \<open>currentQueryResult\<close>.
\<close>

theorem findLastQueryResult_correct:
  "findLastQueryResult messages = lastQueryResult_spec messages
   \<and> (findLastQueryResult messages = None \<longleftrightarrow> \<not> (\<exists>m \<in> set messages. carriesQueryResults m))
   \<and> ws_currentQueryResult (loadSession st (Inr session)) = findLastQueryResult (sess_messages session)"
proof -
  have eq: "findLastQueryResult messages = lastQueryResult_spec messages"
    using findLastQueryResult_from_spec [of "length messages" messages]
    by (simp add: findLastQueryResult_def)
  have none: "findLastQueryResult messages = None \<longleftrightarrow> \<not> (\<exists>m \<in> set messages. carriesQueryResults m)"
    by (simp add: eq lastQueryResult_spec_None filter_empty_conv)
  have load: "ws_currentQueryResult (loadSession st (Inr session)) = findLastQueryResult (sess_messages session)"
    by (simp add: loadSession_def Let_def)
  show ?thesis
    using eq none load by simp
qed

theorem findLastQueryResult_correct_witness:
  "findLastQueryResult query_history = Some \<lparr> snap_data = [JObj [(''n'', JNum (Finite 3))]], snap_columns = [''n''] \<rparr>
   \<and> lastQueryResult_spec query_history = Some \<lparr> snap_data = [JObj [(''n'', JNum (Finite 3))]], snap_columns = [''n''] \<rparr>
   \<and> findLastQueryResult sample_history = None
   \<and> ws_currentQueryResult (loadSession (stateWith []) (Inr (sessionWith query_history))) =
       Some \<lparr> snap_data = [JObj [(''n'', JNum (Finite 3))]], snap_columns = [''n''] \<rparr>"
proof -
  have spec: "lastQueryResult_spec query_history =
      Some \<lparr> snap_data = [JObj [(''n'', JNum (Finite 3))]], snap_columns = [''n''] \<rparr>"
    by (simp add: lastQueryResult_spec_def query_history_def carriesQueryResults_def plainMessage_def
        sample_query_def)
  have none: "lastQueryResult_spec sample_history = None"
    by (simp add: lastQueryResult_spec_def sample_history_def carriesQueryResults_def plainMessage_def)
  show ?thesis
    using findLastQueryResult_correct [of query_history "stateWith []" "sessionWith query_history"]
      findLastQueryResult_correct [of sample_history "stateWith []" "sessionWith query_history"]
      spec none
    by (simp add: sample_messages)
qed

section \<open>Properties of groupMessages\<close>

lemma collectSystem_takeWhile:
  "collectSystem messages i acc =
     (i + length (takeWhile (\<lambda>x. msg_role x = System) (drop i messages)),
      acc @ takeWhile (\<lambda>x. msg_role x = System) (drop i messages))"
proof (induction messages i acc rule: collectSystem.induct)
  case (1 messages i acc)
  show ?case
  proof (cases "i < length messages \<and> msg_role (messages ! i) = System")
    case True
    then have drop: "drop i messages = messages ! i # drop (i + 1) messages"
      by (simp add: Cons_nth_drop_Suc)
    have "collectSystem messages i acc = collectSystem messages (i + 1) (acc @ [messages ! i])"
      using True by (subst collectSystem.simps) simp
    also have "\<dots> =
        (i + 1 + length (takeWhile (\<lambda>x. msg_role x = System) (drop (i + 1) messages)),
         (acc @ [messages ! i]) @ takeWhile (\<lambda>x. msg_role x = System) (drop (i + 1) messages))"
      using True by (intro "1.IH") simp
    finally show ?thesis
      using True by (simp add: drop)
  next
    case False
    then have "takeWhile (\<lambda>x. msg_role x = System) (drop i messages) = []"
      by (cases "i < length messages") (simp_all add: Cons_nth_drop_Suc [symmetric])
    with False show ?thesis
      by (subst collectSystem.simps) auto
  qed
qed

lemma groupMessages_loop_groupsOf:
  "groupMessages_loop messages i groups = groups @ groupsOf (drop i messages)"
proof (induction messages i groups rule: groupMessages_loop.induct)
  case (1 messages i groups)
  show ?case
  proof (cases "i < length messages")
    case False
    then show ?thesis
      by (subst groupMessages_loop.simps) simp
  next
    case inside: True
    then have drop: "drop i messages = messages ! i # drop (Suc i) messages"
      by (simp add: Cons_nth_drop_Suc)
    show ?thesis
    proof (cases "msg_role (messages ! i) = System")
      case False
      have "groupMessages_loop messages i groups =
              groupMessages_loop messages (i + 1) (groups @ [SingleMessage (messages ! i)])"
        using inside False by (subst groupMessages_loop.simps) simp
      also have "\<dots> = (groups @ [SingleMessage (messages ! i)]) @ groupsOf (drop (i + 1) messages)"
        using inside False by (intro "1.IH"(2)) simp_all
      finally show ?thesis
        using False by (simp add: drop)
    next
      case True
      define run where "run = takeWhile (\<lambda>x. msg_role x = System) (drop i messages)"
      have collected: "collectSystem messages i [] = (i + length run, run)"
        by (simp add: collectSystem_takeWhile run_def)
      have run: "run = messages ! i # takeWhile (\<lambda>x. msg_role x = System) (drop (Suc i) messages)"
        using True by (simp add: run_def drop)
      have rest: "drop (i + length run) messages = dropWhile (\<lambda>x. msg_role x = System) (drop (Suc i) messages)"
      proof -
        have "drop (i + length run) messages = drop (length run) (drop i messages)"
          by (simp add: add.commute)
        also have "\<dots> = dropWhile (\<lambda>x. msg_role x = System) (drop i messages)"
          by (simp add: run_def dropWhile_eq_drop)
        also have "\<dots> = dropWhile (\<lambda>x. msg_role x = System) (drop (Suc i) messages)"
          using True by (simp add: drop)
        finally show ?thesis .
      qed
      have "groupMessages_loop messages i groups =
              groupMessages_loop messages (i + length run) (groups @ [SystemMessages run])"
        using inside True by (subst groupMessages_loop.simps) (simp add: collected)
      also have "\<dots> = (groups @ [SystemMessages run]) @ groupsOf (drop (i + length run) messages)"
        using inside True collected by (intro "1.IH"(1)) simp_all
      also have "\<dots> = (groups @ [SystemMessages run]) @
          groupsOf (dropWhile (\<lambda>x. msg_role x = System) (drop (Suc i) messages))"
        by (simp only: rest)
      finally show ?thesis
        using True by (simp add: drop run)
    qed
  qed
qed

lemma groupMessages_groupsOf: "groupMessages messages = groupsOf messages"
  by (simp add: groupMessages_def groupMessages_loop_groupsOf)

lemma concat_groupsOf: "concat (map groupContents (groupsOf messages)) = messages"
  by (induction messages rule: groupsOf.induct) simp_all

lemma wellFormed_groupsOf: "list_all wellFormedGroup (groupsOf messages)"
proof (induction messages rule: groupsOf.induct)
  case 1
  show ?case by simp
next
  case (2 m ms)
  have "list_all (\<lambda>x. msg_role x = System) (takeWhile (\<lambda>x. msg_role x = System) ms)"
    by (auto simp: list_all_iff dest: set_takeWhileD)
  with 2 show ?case by simp
qed

lemma groupsOf_after_run:
  "groupsOf (dropWhile (\<lambda>x. msg_role x = System) ms) = [] \<or>
   \<not> isSystemGroup (hd (groupsOf (dropWhile (\<lambda>x. msg_role x = System) ms)))"
proof (cases "dropWhile (\<lambda>x. msg_role x = System) ms")
  case Nil
  then have "groupsOf (dropWhile (\<lambda>x. msg_role x = System) ms) = []"
    by (simp only: groupsOf.simps)
  then show ?thesis by (rule disjI1)
next
  case (Cons x xs)
  then have "msg_role x \<noteq> System"
    using hd_dropWhile [of "\<lambda>x. msg_role x = System" ms] by auto
  with Cons show ?thesis by simp
qed

lemma noAdjacentSystem_Cons:
  "noAdjacentSystem (g # gs) =
     ((gs = [] \<or> \<not> (isSystemGroup g \<and> isSystemGroup (hd gs))) \<and> noAdjacentSystem gs)"
  by (cases gs) auto

lemma noAdjacentSystem_groupsOf: "noAdjacentSystem (groupsOf messages)"
proof (induction messages rule: groupsOf.induct)
  case 1
  show ?case by simp
next
  case (2 m ms)
  show ?case
  proof (cases "msg_role m = System")
    case True
    with 2 groupsOf_after_run [of ms] show ?thesis
      by (auto simp: noAdjacentSystem_Cons)
  next
    case False
    with 2 show ?thesis
      by (simp add: noAdjacentSystem_Cons)
  qed
qed

text \<open>
  C10. The groups of \<open>groupMessages\<close>, flattened, are the list of messages. A single
  message is never a system message; a system group is not empty and holds system messages
  only; and no two neighbouring groups are both system groups, so every run of system
  messages is one group.
\<close>

theorem groupMessages_partitions:
  "concat (map groupContents (groupMessages messages)) = messages
   \<and> (\<forall>g \<in> set (groupMessages messages). wellFormedGroup g)
   \<and> noAdjacentSystem (groupMessages messages)"
  using wellFormed_groupsOf [of messages]
  by (simp add: groupMessages_groupsOf concat_groupsOf noAdjacentSystem_groupsOf list_all_iff)

theorem groupMessages_partitions_witness:
  "groupMessages event_history =
     [SingleMessage (plainMessage ''user-m1'' User ''show sales''),
      SystemMessages [plainMessage ''e1'' System ''dataset attached'', plainMessage ''e2'' System ''schema loaded''],
      SingleMessage (plainMessage ''m1'' Assistant ''Here it is''),
      SystemMessages [plainMessage ''e3'' System ''artifact saved'']]
   \<and> concat (map groupContents (groupMessages event_history)) = event_history
   \<and> list_all wellFormedGroup (groupMessages event_history)
   \<and> noAdjacentSystem (groupMessages event_history)"
proof -
  have groups: "groupMessages event_history =
     [SingleMessage (plainMessage ''user-m1'' User ''show sales''),
      SystemMessages [plainMessage ''e1'' System ''dataset attached'', plainMessage ''e2'' System ''schema loaded''],
      SingleMessage (plainMessage ''m1'' Assistant ''Here it is''),
      SystemMessages [plainMessage ''e3'' System ''artifact saved'']]"
    by (simp add: groupMessages_def event_history_def groupMessages_loop.simps collectSystem.simps
        plainMessage_def)
  from groupMessages_partitions [of event_history]
  show ?thesis
    by (simp add: groups list_all_iff)
qed

section \<open>Properties of the chat transport client\<close>

lemma api_sendMessage_ok:
  "rsp_ok response \<Longrightarrow>
   api_sendMessage (Inr response) =
     (case rsp_json response of Inl err \<Rightarrow> Inl (Rethrown err) | Inr parsed \<Rightarrow> Inr parsed)"
  by (simp add: api_sendMessage_def)

lemma api_sendMessage_not_ok:
  "\<not> rsp_ok response \<Longrightarrow> \<exists>r. api_sendMessage (Inr response) = Inl r"
  by (simp add: api_sendMessage_def split: sum.splits)

lemma api_sendMessage_rejected:
  "rsp_json response = Inl err \<Longrightarrow> api_sendMessage (Inr response) = Inl (Rethrown err)"
  by (simp add: api_sendMessage_def)

lemma api_sendMessage_error_field:
  "\<not> rsp_ok response \<Longrightarrow> rsp_json response = Inr body \<Longrightarrow> errorField body = Inr field \<Longrightarrow>
   api_sendMessage (Inr response) = Inl (NewError (js_or field (JStr ''Failed to send message'')))"
  by (simp add: api_sendMessage_def)

lemma errorField_not_null: "body \<noteq> JNull \<Longrightarrow> \<exists>field. errorField body = Inr field"
  by (cases body) (simp_all add: errorField_def)

text \<open>
  C6, as the code has it. \<open>api.sendMessage\<close> returns a value \<open>v\<close> exactly when the response
  is ok and \<open>response.json()\<close> resolves with \<open>v\<close>; when \<open>response.json()\<close> rejects, the
  rejection is thrown. For a response that is not ok it throws and never returns. When the
  parsed body is \<open>null\<close>, it throws the \<open>TypeError\<close> of reading the property. Any other
  parsed body has an \<open>error\<close> field or none (for an object, its last member of that
  name): when the field is a non-empty string, the error thrown is \<open>new Error\<close> of that
  string; when the field is missing or falsy (the empty string, for one), it is \<open>new Error\<close>
  of \<open>Failed to send message\<close>; for any other truthy field it is \<open>new Error\<close> of the field.
\<close>

theorem api_sendMessage_outcomes:
  "(api_sendMessage (Inr response) = Inr v \<longleftrightarrow> rsp_ok response \<and> rsp_json response = Inr v)
   \<and> (rsp_json response = Inl err \<longrightarrow> api_sendMessage (Inr response) = Inl (Rethrown err))
   \<and> (\<not> rsp_ok response \<longrightarrow> (\<exists>r. api_sendMessage (Inr response) = Inl r))
   \<and> (\<not> rsp_ok response \<and> rsp_json response = Inr JNull \<longrightarrow>
        api_sendMessage (Inr response) = Inl (Rethrown (ErrorObj nullPropertyMessage)))
   \<and> (body \<noteq> JNull \<longrightarrow> (\<exists>field. errorField body = Inr field))
   \<and> errorField (JObj props) = Inr (map_of (rev props) ''error'')
   \<and> (\<not> rsp_ok response \<and> rsp_json response = Inr body
        \<and> errorField body = Inr (Some (JStr text)) \<and> text \<noteq> [] \<longrightarrow>
        api_sendMessage (Inr response) = Inl (NewError (JStr text)))
   \<and> (\<not> rsp_ok response \<and> rsp_json response = Inr body
        \<and> errorField body = Inr field \<and> \<not> js_truthy field \<longrightarrow>
        api_sendMessage (Inr response) = Inl (NewError (JStr ''Failed to send message'')))
   \<and> (\<not> rsp_ok response \<and> rsp_json response = Inr body
        \<and> errorField body = Inr (Some val) \<and> js_truthy (Some val) \<longrightarrow>
        api_sendMessage (Inr response) = Inl (NewError val))"
proof -
  have returns: "api_sendMessage (Inr response) = Inr v \<longleftrightarrow> rsp_ok response \<and> rsp_json response = Inr v"
  proof (cases "rsp_ok response")
    case True
    then show ?thesis by (simp add: api_sendMessage_ok split: sum.splits)
  next
    case False
    then show ?thesis using api_sendMessage_not_ok [of response] by auto
  qed
  have rejected: "api_sendMessage (Inr response) = Inl (Rethrown err)" if "rsp_json response = Inl err"
    using that by (rule api_sendMessage_rejected)
  have null: "api_sendMessage (Inr response) = Inl (Rethrown (ErrorObj nullPropertyMessage))"
    if "\<not> rsp_ok response" "rsp_json response = Inr JNull"
    using that by (simp add: api_sendMessage_def errorField_def)
  have object: "errorField (JObj props) = Inr (map_of (rev props) ''error'')"
    by (simp add: errorField_def)
  have string: "api_sendMessage (Inr response) = Inl (NewError (JStr text))"
    if "\<not> rsp_ok response" "rsp_json response = Inr body"
       "errorField body = Inr (Some (JStr text))" "text \<noteq> []"
    using that by (simp add: api_sendMessage_error_field js_or_def)
  have fallback: "api_sendMessage (Inr response) = Inl (NewError (JStr ''Failed to send message''))"
    if "\<not> rsp_ok response" "rsp_json response = Inr body" "errorField body = Inr field" "\<not> js_truthy field"
    using that by (cases field) (simp_all add: api_sendMessage_error_field js_or_def)
  have truthy: "api_sendMessage (Inr response) = Inl (NewError val)"
    if "\<not> rsp_ok response" "rsp_json response = Inr body"
       "errorField body = Inr (Some val)" "js_truthy (Some val)"
    using that by (simp add: api_sendMessage_error_field js_or_def)
  show ?thesis
    using returns rejected api_sendMessage_not_ok [of response] null errorField_not_null [of body]
      object string fallback truthy
    by blast
qed

theorem api_sendMessage_outcomes_witness:
  "\<not> rsp_ok (errorResponse 500 ''Model unavailable'')
   \<and> api_sendMessage (Inr (errorResponse 500 ''Model unavailable'')) =
       Inl (NewError (JStr ''Model unavailable''))
   \<and> rsp_ok \<lparr> rsp_status = 200, rsp_json = Inr (JObj [(''messageId'', JStr ''m2'')]) \<rparr>
   \<and> api_sendMessage (Inr \<lparr> rsp_status = 200, rsp_json = Inr (JObj [(''messageId'', JStr ''m2'')]) \<rparr>) =
       Inr (JObj [(''messageId'', JStr ''m2'')])
   \<and> api_sendMessage (Inr \<lparr> rsp_status = 404, rsp_json = Inr (JObj [(''detail'', JStr ''Not Found'')]) \<rparr>) =
       Inl (NewError (JStr ''Failed to send message''))
   \<and> api_sendMessage (Inr \<lparr> rsp_status = 500, rsp_json = Inr JNull \<rparr>) =
       Inl (Rethrown (ErrorObj nullPropertyMessage))
   \<and> api_sendMessage (Inr (unparseableResponse 502)) =
       Inl (Rethrown (ErrorObj ''Unexpected token < in JSON at position 0''))"
proof -
  have bad: "\<not> rsp_ok (errorResponse 500 ''Model unavailable'')"
    by (simp add: rsp_ok_def errorResponse_def)
  have body: "rsp_json (errorResponse 500 ''Model unavailable'') = Inr (JObj [(''error'', JStr ''Model unavailable'')])"
    by (simp add: errorResponse_def)
  have field: "errorField (JObj [(''error'', JStr ''Model unavailable'')]) = Inr (Some (JStr ''Model unavailable''))"
    by (simp add: errorField_def)
  have good: "rsp_ok \<lparr> rsp_status = 200, rsp_json = Inr (JObj [(''messageId'', JStr ''m2'')]) \<rparr>"
    by (simp add: rsp_ok_def)
  have missing: "\<not> rsp_ok \<lparr> rsp_status = 404, rsp_json = Inr (JObj [(''detail'', JStr ''Not Found'')]) \<rparr>"
    "errorField (JObj [(''detail'', JStr ''Not Found'')]) = Inr None"
    by (simp_all add: rsp_ok_def errorField_def)
  have null: "\<not> rsp_ok \<lparr> rsp_status = 500, rsp_json = Inr JNull \<rparr>"
    by (simp add: rsp_ok_def)
  have rejects: "rsp_json (unparseableResponse 502) = Inl (ErrorObj ''Unexpected token < in JSON at position 0'')"
    by (simp add: unparseableResponse_def)
  show ?thesis
    using api_sendMessage_outcomes [of "errorResponse 500 ''Model unavailable''" _ _
        "JObj [(''error'', JStr ''Model unavailable'')]" _ "''Model unavailable''"]
      api_sendMessage_outcomes [of "\<lparr> rsp_status = 200, rsp_json = Inr (JObj [(''messageId'', JStr ''m2'')]) \<rparr>"
        "JObj [(''messageId'', JStr ''m2'')]"]
      api_sendMessage_outcomes [of "\<lparr> rsp_status = 404, rsp_json = Inr (JObj [(''detail'', JStr ''Not Found'')]) \<rparr>"
        _ _ "JObj [(''detail'', JStr ''Not Found'')]" _ _ None]
      api_sendMessage_outcomes [of "\<lparr> rsp_status = 500, rsp_json = Inr JNull \<rparr>"]
      api_sendMessage_outcomes [of "unparseableResponse 502" _ "ErrorObj ''Unexpected token < in JSON at position 0''"]
      bad body field good missing null rejects
    by simp
qed

text \<open>
  C6 as it is stated fails twice. A response that is not ok and whose body carries the empty
  string as its \<open>error\<close> has the field, and the error thrown carries the default message.
  A response that is ok and whose body is not JSON is answered by a rejection, not by a
  value.
\<close>

theorem api_sendMessage_empty_error_counterexample:
  "\<not> rsp_ok (errorResponse 500 [])
   \<and> rsp_json (errorResponse 500 []) = Inr (JObj [(''error'', JStr [])])
   \<and> api_sendMessage (Inr (errorResponse 500 [])) = Inl (NewError (JStr ''Failed to send message''))
   \<and> api_sendMessage (Inr (errorResponse 500 [])) \<noteq> Inl (NewError (JStr []))
   \<and> rsp_ok (unparseableResponse 200)
   \<and> api_sendMessage (Inr (unparseableResponse 200)) =
       Inl (Rethrown (ErrorObj ''Unexpected token < in JSON at position 0''))"
  by (simp add: api_sendMessage_def rsp_ok_def errorResponse_def unparseableResponse_def
      errorField_def js_or_def)

section \<open>Properties of the tool executors\<close>

text \<open>
  C4. \<open>create_graph\<close> rejects a request with 201 nodes and accepts one with exactly 200
  nodes; whatever it accepts it returns whole, so no request is cut down to 200 nodes.
\<close>

theorem create_graph_boundary:
  "(length (graph_nodes requested) = 201 \<longrightarrow> (\<exists>err. create_graph requested = Inl err))
   \<and> (length (graph_nodes requested) = 200 \<longrightarrow> create_graph requested = Inr requested)
   \<and> (create_graph requested = Inr graph \<longrightarrow>
        graph = requested \<and> length (graph_nodes requested) \<le> 200)
   \<and> (200 < length (graph_nodes requested) \<longrightarrow> (\<exists>err. create_graph requested = Inl err))"
  by (auto simp: create_graph_def split: if_splits)

theorem create_graph_boundary_witness:
  "length (graph_nodes (graphRequest 201)) = 201
   \<and> create_graph (graphRequest 201) = Inl ''create_graph: more than 200 nodes requested''
   \<and> length (graph_nodes (graphRequest 200)) = 200
   \<and> create_graph (graphRequest 200) = Inr (graphRequest 200)"
proof -
  have sizes: "length (graph_nodes (graphRequest 201)) = 201" "length (graph_nodes (graphRequest 200)) = 200"
    by (simp_all add: graphRequest_def)
  have rejected: "create_graph (graphRequest 201) = Inl ''create_graph: more than 200 nodes requested''"
    using sizes by (simp add: create_graph_def)
  show ?thesis
    using create_graph_boundary [of "graphRequest 200" "graphRequest 200"]
      create_graph_boundary [of "graphRequest 201" "graphRequest 201"] sizes rejected
    by simp
qed

text \<open>
  C5. For 25 distinct categories and no \<open>top_n\<close>, \<open>create_chart\<close> returns eleven rows: the
  first ten categories and then one row \<open>other\<close> that sums the remaining fifteen; and the
  result flags the truncation.
\<close>

theorem create_chart_boundary:
  assumes "length categories = 25" and "distinct (map fst categories)"
  shows "length (ctr_rows (create_chart None categories)) = 11
       \<and> take 10 (ctr_rows (create_chart None categories)) = take 10 categories
       \<and> drop 10 (ctr_rows (create_chart None categories)) =
           [(''other'', sum_list (map snd (drop 10 categories)))]
       \<and> ctr_truncated (create_chart None categories)"
  using assms by (simp add: create_chart_def Let_def)

theorem create_chart_boundary_witness:
  "length sample_categories = 25
   \<and> distinct (map fst sample_categories)
   \<and> ctr_rows (create_chart None sample_categories) =
       [(''a'', 25), (''b'', 24), (''c'', 23), (''d'', 22), (''e'', 21),
        (''f'', 20), (''g'', 19), (''h'', 18), (''i'', 17), (''j'', 16), (''other'', 120)]
   \<and> ctr_truncated (create_chart None sample_categories)"
proof -
  have h1: "length sample_categories = 25"
    by (simp add: sample_categories_def)
  have h2: "distinct (map fst sample_categories)"
    by (simp add: sample_categories_def)
  have rows: "ctr_rows (create_chart None sample_categories) =
       [(''a'', 25), (''b'', 24), (''c'', 23), (''d'', 22), (''e'', 21),
        (''f'', 20), (''g'', 19), (''h'', 18), (''i'', 17), (''j'', 16), (''other'', 120)]"
    by (simp add: create_chart_def sample_categories_def)
  from create_chart_boundary [OF h1 h2]
  show ?thesis
    using h1 h2 rows by simp
qed

end
